theory Spec2Isabelle
  imports Complex_Main "HOL-Library.Word" "HOL-Library.Signed_Division"
begin

section \<open>Go primitives used by the three backends\<close>

text \<open>
  Go's \<open>int\<close> on the 64-bit targets the services are built for: a two's complement
  64-bit value. \<open>+\<close>, \<open>-\<close> and \<open>*\<close> wrap around, comparisons are signed
  (\<open>sint\<close>), and \<open>/\<close> truncates towards zero and panics on a zero divisor.
\<close>

type_synonym go_int = "64 word"

definition go_div :: "go_int \<Rightarrow> go_int \<Rightarrow> go_int option" where
  "go_div a b = (if b = 0 then None else Some (word_of_int (sint a sdiv sint b)))"

subsection \<open>strconv.Atoi and strconv.ParseInt(s, 10, 64)\<close>

text \<open>
  The library parser of the standard library, base 10, 64 bits: an optional sign
  \<open>+\<close> or \<open>-\<close>, then at least one digit \<open>0..9\<close> and nothing else; a value outside
  the 64-bit range is an error as well.  \<open>None\<close> is the non-nil error.
\<close>

definition is_digit :: "char \<Rightarrow> bool" where
  "is_digit c = ((48::nat) \<le> of_char c \<and> (of_char c :: nat) \<le> 57)"

fun digits_value :: "nat \<Rightarrow> string \<Rightarrow> nat" where
  "digits_value acc [] = acc"
| "digits_value acc (c # cs) = digits_value (10 * acc + (of_char c - 48)) cs"

definition decimal_integer :: "string \<Rightarrow> bool" where
  "decimal_integer s =
     (case s of
        [] \<Rightarrow> False
      | c # cs \<Rightarrow>
          if c = CHR ''+'' \<or> c = CHR ''-'' then cs \<noteq> [] \<and> list_all is_digit cs
          else list_all is_digit s)"

definition decimal_value :: "string \<Rightarrow> int" where
  "decimal_value s =
     (case s of
        [] \<Rightarrow> 0
      | c # cs \<Rightarrow>
          if c = CHR ''-'' then - int (digits_value 0 cs)
          else if c = CHR ''+'' then int (digits_value 0 cs)
          else int (digits_value 0 s))"

definition ParseInt64 :: "string \<Rightarrow> go_int option" where
  "ParseInt64 s =
     (if \<not> decimal_integer s then None
      else if decimal_value s < - (2 ^ 63) \<or> 2 ^ 63 - 1 < decimal_value s then None
      else Some (word_of_int (decimal_value s)))"

definition Atoi :: "string \<Rightarrow> go_int option" where
  "Atoi s = ParseInt64 s"

subsection \<open>strings.TrimSpace\<close>

text \<open>
  Leading and trailing white space removed, as Unicode defines it.  A string is its
  UTF-8 bytes.  \<open>space_width\<close> is the number of bytes of the white space code point
  a string starts with, 0 when it starts with none: the ASCII tab, line feed, vertical
  tab, form feed, carriage return and space, and the encodings of U+0085, U+00A0,
  U+1680, U+2000 to U+200A, U+2028, U+2029, U+202F, U+205F and U+3000.
\<close>

definition is_space :: "char \<Rightarrow> bool" where
  "is_space c = (c = CHR 0x09 \<or> c = CHR 0x0A \<or> c = CHR 0x0B \<or> c = CHR 0x0C
                 \<or> c = CHR 0x0D \<or> c = CHR 0x20)"

fun space_width :: "string \<Rightarrow> nat" where
  "space_width [] = 0"
| "space_width (c # cs) =
     (if is_space c then 1
      else if c = CHR 0xC2
      then (case cs of
              d # rest \<Rightarrow> if d = CHR 0x85 \<or> d = CHR 0xA0 then 2 else 0
            | [] \<Rightarrow> 0)
      else if c = CHR 0xE1
      then (if take 2 cs = [CHR 0x9A, CHR 0x80] then 3 else 0)
      else if c = CHR 0xE2
      then (case cs of
              d # e # rest \<Rightarrow>
                if d = CHR 0x80
                   \<and> ((128::nat) \<le> of_char e \<and> (of_char e :: nat) \<le> 138
                      \<or> e = CHR 0xA8 \<or> e = CHR 0xA9 \<or> e = CHR 0xAF)
                   \<or> d = CHR 0x81 \<and> e = CHR 0x9F
                then 3 else 0
            | _ \<Rightarrow> 0)
      else if c = CHR 0xE3
      then (if take 2 cs = [CHR 0x80, CHR 0x80] then 3 else 0)
      else 0)"

text \<open>The same at the end of a string.\<close>

definition space_width_end :: "string \<Rightarrow> nat" where
  "space_width_end s =
     (if 1 \<le> length s \<and> space_width (drop (length s - 1) s) = 1 then 1
      else if 2 \<le> length s \<and> space_width (drop (length s - 2) s) = 2 then 2
      else if 3 \<le> length s \<and> space_width (drop (length s - 3) s) = 3 then 3
      else 0)"

function trim_left :: "string \<Rightarrow> string" where
  "trim_left s = (if space_width s = 0 then s else trim_left (drop (space_width s) s))"
  by pat_completeness auto
termination
proof (relation "measure length")
  show "wf (measure length)" by simp
next
  fix s :: string
  assume "space_width s \<noteq> 0"
  then have "s \<noteq> []" by (cases s) simp_all
  with \<open>space_width s \<noteq> 0\<close> show "(drop (space_width s) s, s) \<in> measure length"
    by simp
qed

function trim_right :: "string \<Rightarrow> string" where
  "trim_right s =
     (if space_width_end s = 0 then s
      else trim_right (take (length s - space_width_end s) s))"
  by pat_completeness auto
termination
proof (relation "measure length")
  show "wf (measure length)" by simp
next
  fix s :: string
  assume "space_width_end s \<noteq> 0"
  then have "s \<noteq> []" by (cases s) (simp_all add: space_width_end_def)
  with \<open>space_width_end s \<noteq> 0\<close>
  show "(take (length s - space_width_end s) s, s) \<in> measure length"
    by simp
qed

definition TrimSpace :: "string \<Rightarrow> string" where
  "TrimSpace s = trim_right (trim_left s)"

subsection \<open>Query strings\<close>

text \<open>
  The parsed query string of a request, in order.  \<open>Query\<close> is gin's \<open>c.Query(key)\<close>
  and \<open>r.URL.Query().Get(key)\<close>: the first value of the key, the empty string when the
  key is absent.
\<close>

type_synonym query_string = "(string \<times> string) list"

definition Query :: "query_string \<Rightarrow> string \<Rightarrow> string" where
  "Query qs key = (case map_of qs key of None \<Rightarrow> [] | Some v \<Rightarrow> v)"

subsection \<open>float64 and Unicode case mapping\<close>

text \<open>
  The services only parse, compare with zero, multiply, convert and encode their
  \<open>float64\<close> values, and upper-case currency codes with \<open>strings.ToUpper\<close>, which
  follows the Unicode tables.  The carrier \<open>'f\<close> of the floating point values and these
  operations of the language and its standard library are parameters of the model.
\<close>

record 'f go_library =
  ParseFloat :: "string \<Rightarrow> 'f option"     \<comment> \<open>\<open>strconv.ParseFloat(s, 64)\<close>, \<open>None\<close> the error\<close>
  fmul :: "'f \<Rightarrow> 'f \<Rightarrow> 'f"                 \<comment> \<open>\<open>x * y\<close>\<close>
  fzero :: "'f"                             \<comment> \<open>the zero value \<open>0.0\<close>\<close>
  fone :: "'f"                              \<comment> \<open>the constant \<open>1.0\<close>\<close>
  is_zero :: "'f \<Rightarrow> bool"                   \<comment> \<open>\<open>x == 0\<close>\<close>
  to_int :: "'f \<Rightarrow> go_int"                  \<comment> \<open>the conversion \<open>int(x)\<close>\<close>
  json_encodable :: "'f \<Rightarrow> bool"            \<comment> \<open>\<open>encoding/json\<close> refuses NaN and infinities\<close>
  ToUpper :: "string \<Rightarrow> string"            \<comment> \<open>\<open>strings.ToUpper(s)\<close>\<close>

text \<open>
  An instance for running the handlers on concrete inputs: the integral values, parsed
  from decimal integers, with exact multiplication, and the upper-casing of ASCII text,
  where the letters \<open>a..z\<close> (codes 97 to 122) become \<open>A..Z\<close>, 32 lower, which is the
  same code with bit 5 cleared.
\<close>

definition upper_char :: "char \<Rightarrow> char" where
  "upper_char c =
     (if (97::nat) \<le> of_char c \<and> (of_char c :: nat) \<le> 122
      then (case c of Char b0 b1 b2 b3 b4 b5 b6 b7 \<Rightarrow> Char b0 b1 b2 b3 b4 False b6 b7)
      else c)"

definition int_float64 :: "int go_library" where
  "int_float64 =
     \<lparr>ParseFloat = (\<lambda>s. if decimal_integer s then Some (decimal_value s) else None),
      fmul = (\<lambda>x y. x * y), fzero = 0, fone = 1, is_zero = (\<lambda>x. x = 0),
      to_int = word_of_int, json_encodable = (\<lambda>x. True), ToUpper = map upper_char\<rparr>"

section \<open>Search engine backend (code/search-engine/backend/main.go)\<close>

record 'f Movie =
  ID :: string
  Title :: string
  Description :: string
  Genre :: string
  Rating :: 'f
  ReleaseYear :: go_int

record Pagination =
  Page :: go_int
  PageSize :: go_int
  TotalHits :: go_int
  TotalPages :: go_int

text \<open>The query clause of the search body: \<open>match_all\<close>, or \<open>multi_match\<close> with its
  query text and field list.\<close>

datatype es_query = match_all | multi_match string "string list"

record search_body =
  body_from :: go_int                        \<comment> \<open>\<open>"from"\<close>\<close>
  body_size :: go_int                        \<comment> \<open>\<open>"size"\<close>\<close>
  body_sort :: "(string \<times> string) list"      \<comment> \<open>\<open>"sort"\<close>: field and order\<close>
  body_query :: es_query                     \<comment> \<open>\<open>"query"\<close>\<close>

text \<open>A value of a decoded \<open>_source\<close> object, as far as \<open>mapToMovie\<close> inspects it.\<close>

datatype 'f source_value = SString string | SFloat 'f | SNumber string | SOther

type_synonym 'f source = "string \<rightharpoonup> 'f source_value"

text \<open>
  What a search call can come back with: the client fails, the response has an error
  status, the body does not decode, or it decodes to a total and the hits (identifier
  and source each).
\<close>

datatype 'f search_outcome =
    SearchFailed
  | SearchErrorStatus
  | SearchUndecodable
  | SearchHits go_int "(string \<times> 'f source) list"

text \<open>The Elasticsearch side of a search request: whether the body encodes, and what
  the search call returns for a body.\<close>

record 'f search_client =
  encodes :: "search_body \<Rightarrow> bool"
  Search :: "search_body \<Rightarrow> 'f search_outcome"

text \<open>A client whose index answers every search with the same outcome.\<close>

definition const_client :: "'f search_outcome \<Rightarrow> 'f search_client" where
  "const_client r = \<lparr>encodes = (\<lambda>body. True), Search = (\<lambda>body. r)\<rparr>"

datatype 'f search_payload =
    ErrorJSON string
  | MoviesJSON "'f Movie list" Pagination
  | Panicked

definition parseIntWithDefault :: "string \<Rightarrow> go_int \<Rightarrow> go_int" where
  "parseIntWithDefault value def =
     (if value = [] then def
      else case Atoi value of None \<Rightarrow> def | Some parsed \<Rightarrow> parsed)"

definition mapToMovie :: "'f go_library \<Rightarrow> 'f source \<Rightarrow> 'f Movie" where
  "mapToMovie ops source =
     (let movie = \<lparr>ID = [], Title = [], Description = [], Genre = [],
                   Rating = fzero ops, ReleaseYear = 0\<rparr>;
          movie = (case source ''title'' of
                     Some (SString title) \<Rightarrow> movie\<lparr>Title := title\<rparr> | _ \<Rightarrow> movie);
          movie = (case source ''description'' of
                     Some (SString description) \<Rightarrow> movie\<lparr>Description := description\<rparr>
                   | _ \<Rightarrow> movie);
          movie = (case source ''genre'' of
                     Some (SString genre) \<Rightarrow> movie\<lparr>Genre := genre\<rparr> | _ \<Rightarrow> movie);
          movie = (case source ''rating'' of
                     Some (SFloat rating) \<Rightarrow> movie\<lparr>Rating := rating\<rparr>
                   | Some (SNumber ratingNum) \<Rightarrow>
                       (case ParseFloat ops ratingNum of
                          Some v \<Rightarrow> movie\<lparr>Rating := v\<rparr> | None \<Rightarrow> movie)
                   | _ \<Rightarrow> movie);
          movie = (case source ''release_year'' of
                     Some (SFloat v) \<Rightarrow> movie\<lparr>ReleaseYear := to_int ops v\<rparr>
                   | Some (SNumber v) \<Rightarrow>
                       (case ParseInt64 v of
                          Some n \<Rightarrow> movie\<lparr>ReleaseYear := n\<rparr> | None \<Rightarrow> movie)
                   | _ \<Rightarrow> movie)
      in movie)"

text \<open>Lines 175 to 204 of \<open>handleSearchMovies\<close>: the page and page size after
  substitution, and the search body built from them.\<close>

definition searchPage :: "query_string \<Rightarrow> go_int" where
  "searchPage qs =
     (let page = parseIntWithDefault (Query qs ''page'') 1
      in if sint page < 1 then 1 else page)"

definition searchPageSize :: "query_string \<Rightarrow> go_int" where
  "searchPageSize qs =
     (let pageSize = parseIntWithDefault (Query qs ''pageSize'') 5
      in if sint pageSize \<le> 0 \<or> sint pageSize > 50 then 5 else pageSize)"

definition searchBody :: "query_string \<Rightarrow> search_body" where
  "searchBody qs =
     (let query = Query qs ''q'';
          page = searchPage qs;
          pageSize = searchPageSize qs;
          from = (page - 1) * pageSize
      in \<lparr>body_from = from, body_size = pageSize, body_sort = [(''rating'', ''desc'')],
          body_query = (if query = [] then match_all
                   else multi_match query [''title^2'', ''description'', ''genre''])\<rparr>)"

definition handleSearchMovies ::
  "'f go_library \<Rightarrow> 'f search_client \<Rightarrow> query_string \<Rightarrow> nat \<times> 'f search_payload" where
  "handleSearchMovies ops es qs =
     (let page = searchPage qs;
          pageSize = searchPageSize qs;
          body = searchBody qs
      in if \<not> encodes es body then (500, ErrorJSON ''failed to encode search query'')
         else case Search es body of
           SearchFailed \<Rightarrow> (500, ErrorJSON ''search request failed'')
         | SearchErrorStatus \<Rightarrow> (500, ErrorJSON ''search returned an error'')
         | SearchUndecodable \<Rightarrow> (500, ErrorJSON ''failed to decode search results'')
         | SearchHits totalHits hits \<Rightarrow>
             (let movies = map (\<lambda>(hit_id, hit_source).
                                   (mapToMovie ops hit_source)\<lparr>ID := hit_id\<rparr>) hits
              in case go_div (totalHits + pageSize - 1) pageSize of
                   None \<Rightarrow> (500, Panicked)
                 | Some totalPages \<Rightarrow>
                     (200, MoviesJSON movies
                             \<lparr>Page = page, PageSize = pageSize,
                              TotalHits = totalHits, TotalPages = totalPages\<rparr>)))"

text \<open>The weight of an entry of a \<open>multi_match\<close> field list: \<open>name^k\<close> boosts the
  field by the factor \<open>k\<close>, a plain name has weight 1.\<close>

fun field_weight :: "string \<Rightarrow> string \<times> nat" where
  "field_weight [] = ([], 1)"
| "field_weight (c # cs) =
     (if c = CHR ''^'' then ([], digits_value 0 cs)
      else (c # fst (field_weight cs), snd (field_weight cs)))"


section \<open>Currency converter backend (convertHandler, fetchRate)\<close>

record 'f convertResponse =
  Base :: string
  Target :: string
  Amount :: 'f
  Rate :: 'f
  Converted :: 'f
  Source :: string

text \<open>
  The decoded \<open>chartResponse\<close>, as far as \<open>fetchRate\<close> reads it: whether
  \<open>chart.error\<close> is present and not null, and for every entry of \<open>chart.result\<close> its
  \<open>meta.regularMarketPrice\<close>, \<open>None\<close> where the response has no such key.  The
  decoder leaves a missing number at the zero value.
\<close>

record 'f chartResponse =
  chart_Error :: bool
  chart_Result :: "'f option list"

text \<open>
  What the request to the chart API comes back with: the request cannot be built, the
  client fails (transport error or timeout), or there is a response with a status code
  and a body that decodes (\<open>Some\<close>) or does not (\<open>None\<close>).
\<close>

datatype 'f chart_reply =
    RequestRejected
  | DoFailed
  | Reply nat "'f chartResponse option"

type_synonym 'f chart_api = "string \<Rightarrow> 'f chart_reply"

text \<open>An API that gives every request the same reply.\<close>

definition const_api :: "'f chart_reply \<Rightarrow> 'f chart_api" where
  "const_api reply = (\<lambda>endpoint. reply)"

datatype fetch_error =
    NewRequestError
  | TransportError
  | UnexpectedStatus nat
  | DecodeError
  | ChartApiError
  | NoResults
  | ZeroPrice

definition chartEndpoint :: "string \<Rightarrow> string \<Rightarrow> string" where
  "chartEndpoint base target =
     (let symbol = base @ target @ ''=X''
      in ''https://query1.finance.yahoo.com/v8/finance/chart/'' @ symbol
           @ ''?range=1d&interval=1m'')"

definition fetchRate ::
  "'f go_library \<Rightarrow> 'f chart_api \<Rightarrow> string \<Rightarrow> string \<Rightarrow> fetch_error + 'f" where
  "fetchRate ops api base target =
     (case api (chartEndpoint base target) of
        RequestRejected \<Rightarrow> Inl NewRequestError
      | DoFailed \<Rightarrow> Inl TransportError
      | Reply code decoded \<Rightarrow>
          if code \<noteq> 200 then Inl (UnexpectedStatus code)
          else
            (case decoded of
               None \<Rightarrow> Inl DecodeError
             | Some payload \<Rightarrow>
                 if chart_Error payload then Inl ChartApiError
                 else
                   (case chart_Result payload of
                      [] \<Rightarrow> Inl NoResults
                    | r # rest \<Rightarrow>
                        (let price = (case r of None \<Rightarrow> fzero ops | Some p \<Rightarrow> p)
                         in if is_zero ops price then Inl ZeroPrice else Inr price))))"

record http_request =
  Method :: string
  URLQuery :: query_string

datatype 'f convert_body =
    PlainText string
  | ConvertJSON "'f convertResponse"
  | EmptyBody

text \<open>The outcome of a request: status code, body, and the calls of the rate fetcher
  the handler made, with their arguments.\<close>

record 'f convert_result =
  status :: nat
  body :: "'f convert_body"
  fetched :: "(string \<times> string) list"

text \<open>
  \<open>rateFetcher\<close> is the package variable the handler calls, \<open>fetchRate\<close> unless a
  test replaces it.  A response that does not encode is logged only: nothing has been
  written, so the reply is the default status 200 with an empty body.
\<close>

definition convertHandler ::
  "'f go_library \<Rightarrow> (string \<Rightarrow> string \<Rightarrow> fetch_error + 'f) \<Rightarrow> http_request
     \<Rightarrow> 'f convert_result" where
  "convertHandler ops rateFetcher r =
     (if Method r \<noteq> ''GET''
      then \<lparr>status = 405, body = PlainText ''method not allowed'', fetched = []\<rparr>
      else
        let base = ToUpper ops (Query (URLQuery r) ''base'');
            target = ToUpper ops (Query (URLQuery r) ''target'');
            amountStr = Query (URLQuery r) ''amount''
        in if base = [] \<or> target = []
           then \<lparr>status = 400,
                 body = PlainText ''base and target query parameters are required'',
                 fetched = []\<rparr>
           else
             case (if amountStr \<noteq> [] then ParseFloat ops amountStr else Some (fone ops)) of
               None \<Rightarrow> \<lparr>status = 400, body = PlainText ''amount must be a number'',
                        fetched = []\<rparr>
             | Some amount \<Rightarrow>
                 (case rateFetcher base target of
                    Inl err \<Rightarrow> \<lparr>status = 502, body = PlainText ''failed to fetch rate'',
                                fetched = [(base, target)]\<rparr>
                  | Inr rate \<Rightarrow>
                      (let resp = \<lparr>Base = base, Target = target, Amount = amount,
                                   Rate = rate, Converted = fmul ops rate amount,
                                   Source = ''yahoo-finance''\<rparr>
                       in if json_encodable ops (Amount resp) \<and> json_encodable ops (Rate resp)
                             \<and> json_encodable ops (Converted resp)
                          then \<lparr>status = 200, body = ConvertJSON resp,
                                fetched = [(base, target)]\<rparr>
                          else \<lparr>status = 200, body = EmptyBody,
                                fetched = [(base, target)]\<rparr>)))"

text \<open>The fetchers the tests install: one that returns a fixed rate, one that fails.\<close>

definition fixed_rate :: "'f \<Rightarrow> string \<Rightarrow> string \<Rightarrow> fetch_error + 'f" where
  "fixed_rate rate base target = Inr rate"

definition failing_fetcher :: "fetch_error \<Rightarrow> string \<Rightarrow> string \<Rightarrow> fetch_error + 'f" where
  "failing_fetcher err base target = Inl err"

section \<open>Search engine backend: deleting a movie\<close>




section \<open>Travel blog backend (countries and places in Postgres)\<close>

subsection \<open>Dates: time.Parse("2006-01-02", s)\<close>

text \<open>
  A date is year, month and day.  The layout asks for four digits, a hyphen, two digits,
  a hyphen and two digits, and nothing else; the month must be 1 to 12 and the day must
  exist in that month.
\<close>

type_synonym date = "nat \<times> nat \<times> nat"

definition leap_year :: "nat \<Rightarrow> bool" where
  "leap_year y = (y mod 4 = 0 \<and> (y mod 100 \<noteq> 0 \<or> y mod 400 = 0))"

definition days_in :: "nat \<Rightarrow> nat \<Rightarrow> nat" where
  "days_in m y =
     (if m = 2 then (if leap_year y then 29 else 28)
      else if m = 4 \<or> m = 6 \<or> m = 9 \<or> m = 11 then 30 else 31)"

definition parse_date :: "string \<Rightarrow> date option" where
  "parse_date s =
     (if length s = 10 \<and> list_all is_digit (take 4 s) \<and> s ! 4 = CHR ''-''
         \<and> list_all is_digit (take 2 (drop 5 s)) \<and> s ! 7 = CHR ''-''
         \<and> list_all is_digit (drop 8 s)
      then
        (let y = digits_value 0 (take 4 s);
             m = digits_value 0 (take 2 (drop 5 s));
             d = digits_value 0 (drop 8 s)
         in if 1 \<le> m \<and> m \<le> 12 \<and> 1 \<le> d \<and> d \<le> days_in m y then Some (y, m, d)
            else None)
      else None)"

subsection \<open>Tables\<close>

type_synonym int64 = "64 word"

text \<open>Instants of \<open>TIMESTAMPTZ\<close> columns.\<close>

type_synonym timestamp = nat

record country_row =
  countries_id :: int64
  countries_name :: string
  countries_description :: string
  countries_created_at :: timestamp
  countries_updated_at :: timestamp

record place_row =
  places_id :: int64
  places_country_id :: int64
  places_name :: string
  places_category :: string
  places_city :: string
  places_description :: string
  places_visited_at :: "date option"
  places_created_at :: timestamp
  places_updated_at :: timestamp

record database =
  countries :: "country_row list"
  places :: "place_row list"

text \<open>The row with a given primary key.\<close>

definition find_country :: "database \<Rightarrow> int64 \<Rightarrow> country_row option" where
  "find_country db i = find (\<lambda>c. countries_id c = i) (countries db)"

definition find_place :: "database \<Rightarrow> int64 \<Rightarrow> place_row option" where
  "find_place db i = find (\<lambda>p. places_id p = i) (places db)"

text \<open>SQL's \<open>COALESCE(v, column)\<close> with a parameter \<open>v\<close> that may be \<open>NULL\<close>.\<close>

definition COALESCE :: "'a option \<Rightarrow> 'a \<Rightarrow> 'a" where
  "COALESCE v current = (case v of None \<Rightarrow> current | Some x \<Rightarrow> x)"

text \<open>
  The statements the handlers execute.  Each returns the database afterwards and the
  number of rows affected.  The triggers of \<open>ensureSchema\<close> set \<open>updated_at\<close> to the
  current time on every updated row; deleting a country deletes its places
  (\<open>ON DELETE CASCADE\<close>).
\<close>

definition update_countries ::
  "timestamp \<Rightarrow> string option \<Rightarrow> string option \<Rightarrow> int64 \<Rightarrow> database \<Rightarrow> database \<times> nat" where
  "update_countries now name description i db =
     (db\<lparr>countries :=
          map (\<lambda>c. if countries_id c = i
                    then c\<lparr>countries_name := COALESCE name (countries_name c),
                           countries_description := COALESCE description (countries_description c),
                           countries_updated_at := now\<rparr>
                    else c) (countries db)\<rparr>,
      length (filter (\<lambda>c. countries_id c = i) (countries db)))"

definition update_places ::
  "timestamp \<Rightarrow> string option \<Rightarrow> string option \<Rightarrow> string option \<Rightarrow> string option
     \<Rightarrow> bool \<Rightarrow> date option \<Rightarrow> int64 \<Rightarrow> database \<Rightarrow> database \<times> nat" where
  "update_places now name category city description setVisited visitedAt i db =
     (db\<lparr>places :=
          map (\<lambda>p. if places_id p = i
                    then p\<lparr>places_name := COALESCE name (places_name p),
                           places_category := COALESCE category (places_category p),
                           places_city := COALESCE city (places_city p),
                           places_description := COALESCE description (places_description p),
                           places_visited_at :=
                             (if setVisited then visitedAt else places_visited_at p),
                           places_updated_at := now\<rparr>
                    else p) (places db)\<rparr>,
      length (filter (\<lambda>p. places_id p = i) (places db)))"



subsection \<open>Requests and responses\<close>

text \<open>
  The body of a request, as the JSON decoder behind \<open>c.ShouldBindJSON\<close> reads it:
  text that is not JSON or a value that is neither an object nor \<open>null\<close> (it does not
  bind), the literal \<open>null\<close> (it binds and sets nothing), or an object, given as its
  members in document order; a key may occur more than once.  The value of a member is
  \<open>null\<close>, a string, or a value of another kind.
\<close>

datatype json_value = JNull | JString string | JOther

datatype json_body = Malformed | NullBody | Object "(string \<times> json_value) list"

text \<open>
  The decoder matches the key of a member with the name of a struct field up to case:
  ASCII letters in either case, and the two letters that Unicode folds onto ASCII ones,
  U+017F (long s, bytes C5 BF) onto \<open>s\<close> and U+212A (Kelvin sign, bytes E2 84 AA) onto
  \<open>k\<close>.  \<open>fold_key\<close> is the key in lower case; the field names here are lower case.
\<close>

definition lower_char :: "char \<Rightarrow> char" where
  "lower_char c =
     (if (65::nat) \<le> of_char c \<and> (of_char c :: nat) \<le> 90
      then (case c of Char b0 b1 b2 b3 b4 b5 b6 b7 \<Rightarrow> Char b0 b1 b2 b3 b4 True b6 b7)
      else c)"

fun fold_key :: "string \<Rightarrow> string" where
  "fold_key [] = []"
| "fold_key (c # cs) =
     (if c = CHR 0xC5
      then (case cs of
              d # ds \<Rightarrow> if d = CHR 0xBF then CHR ''s'' # fold_key ds
                        else c # fold_key cs
            | [] \<Rightarrow> [c])
      else if c = CHR 0xE2
      then (case cs of
              d # e # es \<Rightarrow> if d = CHR 0x84 \<and> e = CHR 0xAA then CHR ''k'' # fold_key es
                            else c # fold_key cs
            | _ \<Rightarrow> c # fold_key cs)
      else lower_char c # fold_key cs)"

text \<open>The values of the members whose key names a field, in document order.\<close>

definition field_values :: "(string \<times> json_value) list \<Rightarrow> string \<Rightarrow> json_value list" where
  "field_values members field =
     map snd (filter (\<lambda>member. fold_key (fst member) = field) members)"

text \<open>What the request says about a field: nothing (\<open>None\<close>) when no key names it,
  otherwise the value of the last member that does.\<close>

definition field_state :: "(string \<times> json_value) list \<Rightarrow> string \<Rightarrow> json_value option" where
  "field_state members field =
     (case rev (field_values members field) of [] \<Rightarrow> None | v # earlier \<Rightarrow> Some v)"

text \<open>
  Binding the members of a field to a \<open>*string\<close>: every member is decoded in turn, a
  string sets the pointer, \<open>null\<close> sets it back to nil, and a value of another kind is an
  error of the whole binding (\<open>None\<close>), also when a later member is a string.  With no
  member the pointer stays nil.
\<close>

definition bindString :: "json_value list \<Rightarrow> string option option" where
  "bindString vs =
     (if JOther \<in> set vs then None
      else Some (case rev vs of JString s # earlier \<Rightarrow> Some s | _ \<Rightarrow> None))"

text \<open>
  The body of a response: one of the fixed messages, the text of a binding, parameter
  or database error, the country with its places, or nothing.
\<close>

datatype travel_body =
    ErrorMessage string
  | BindError
  | ParamError
  | DatabaseError
  | CountryJSON "(country_row \<times> place_row list) option"
  | NoBody

record travel_result =
  resp_status :: nat
  resp_body :: travel_body
  db_after :: database

text \<open>
  Database calls can fail.  \<open>fault\<close> is the number of the call of the request that
  fails, counted from 0, or \<open>None\<close> when none does; a failed statement changes nothing.
  A statement that the database refuses, such as one with an id beyond the range of the
  \<open>INTEGER\<close> key column, is a failed call.
\<close>

definition parseIDParam :: "string \<Rightarrow> int64 option" where
  "parseIDParam idStr = ParseInt64 idStr"

text \<open>The places of a country, in table order (the \<open>ORDER BY\<close> of the query is left
  out: the order of the places in a response plays no role below).\<close>

definition fetchPlaces :: "database \<Rightarrow> int64 \<Rightarrow> place_row list" where
  "fetchPlaces db countryID = filter (\<lambda>p. places_country_id p = countryID) (places db)"

definition fetchCountry ::
  "nat option \<Rightarrow> nat \<Rightarrow> database \<Rightarrow> int64
     \<Rightarrow> unit + (country_row \<times> place_row list) option" where
  "fetchCountry fault call db i =
     (if fault = Some call then Inl ()
      else case find_country db i of
        None \<Rightarrow> Inr None
      | Some country \<Rightarrow>
          if fault = Some (call + 1) then Inl ()
          else Inr (Some (country, fetchPlaces db i)))"

text \<open>\<open>c.ShouldBindJSON(&input)\<close> for the two update inputs, all of whose fields are
  \<open>*string\<close>; \<open>None\<close> is the binding error.\<close>

definition bindCountryInput :: "json_body \<Rightarrow> (string option \<times> string option) option" where
  "bindCountryInput request =
     (case request of
        Malformed \<Rightarrow> None
      | NullBody \<Rightarrow> Some (None, None)
      | Object members \<Rightarrow>
          (case (bindString (field_values members ''name''),
                 bindString (field_values members ''description'')) of
             (Some nameField, Some descriptionField) \<Rightarrow>
               Some (nameField, descriptionField)
           | _ \<Rightarrow> None))"

definition bindPlaceInput ::
  "json_body \<Rightarrow> (string option \<times> string option \<times> string option \<times> string option
                  \<times> string option) option" where
  "bindPlaceInput request =
     (case request of
        Malformed \<Rightarrow> None
      | NullBody \<Rightarrow> Some (None, None, None, None, None)
      | Object members \<Rightarrow>
          (case (bindString (field_values members ''name''),
                 bindString (field_values members ''category''),
                 bindString (field_values members ''city''),
                 bindString (field_values members ''description''),
                 bindString (field_values members ''visited_at'')) of
             (Some nameField, Some categoryField, Some cityField, Some descriptionField,
              Some visitedField) \<Rightarrow>
               Some (nameField, categoryField, cityField, descriptionField, visitedField)
           | _ \<Rightarrow> None))"


text \<open>Lines 429 to 443 of \<open>updatePlace\<close>: \<open>setVisited\<close> and \<open>visitedAt\<close> from the
  \<open>visited_at\<close> input, or \<open>None\<close> for a date that does not parse.\<close>

definition resolveVisitedAt :: "string option \<Rightarrow> (bool \<times> date option) option" where
  "resolveVisitedAt inputVisitedAt =
     (case inputVisitedAt of
        None \<Rightarrow> Some (False, None)
      | Some s \<Rightarrow>
          if s = [] then Some (True, None)
          else (case parse_date s of
                  None \<Rightarrow> None
                | Some t \<Rightarrow> Some (True, Some t)))"

text \<open>Lines 314 to 330 of \<open>updateCountry\<close>: the statement is executed and the
  country is read back for the response.\<close>

definition execUpdateCountry ::
  "timestamp \<Rightarrow> nat option \<Rightarrow> database \<Rightarrow> int64 \<Rightarrow> string option \<Rightarrow> string option
     \<Rightarrow> travel_result" where
  "execUpdateCountry now fault db i name description =
     (if fault = Some 0
      then \<lparr>resp_status = 500, resp_body = DatabaseError, db_after = db\<rparr>
      else
        (case update_countries now name description i db of
           (db', affected) \<Rightarrow>
             if affected = 0
             then \<lparr>resp_status = 404, resp_body = ErrorMessage ''country not found'',
                   db_after = db'\<rparr>
             else
               (case fetchCountry fault 1 db' i of
                  Inl err \<Rightarrow> \<lparr>resp_status = 500, resp_body = DatabaseError, db_after = db'\<rparr>
                | Inr country \<Rightarrow> \<lparr>resp_status = 200, resp_body = CountryJSON country,
                                  db_after = db'\<rparr>)))"

definition updateCountry ::
  "timestamp \<Rightarrow> nat option \<Rightarrow> database \<Rightarrow> string \<Rightarrow> json_body \<Rightarrow> travel_result" where
  "updateCountry now fault db idParam request =
     (case parseIDParam idParam of
        None \<Rightarrow> \<lparr>resp_status = 400, resp_body = ParamError, db_after = db\<rparr>
      | Some i \<Rightarrow>
        (case bindCountryInput request of
           None \<Rightarrow> \<lparr>resp_status = 400, resp_body = BindError, db_after = db\<rparr>
         | Some (inputName, inputDescription) \<Rightarrow>
             (let name = (case inputName of
                            None \<Rightarrow> None
                          | Some s \<Rightarrow>
                              (let trimmed = TrimSpace s
                               in if trimmed \<noteq> [] then Some trimmed else Some []));
                  description = map_option TrimSpace inputDescription
              in execUpdateCountry now fault db i name description)))"



text \<open>Lines 462 to 492 of \<open>updatePlace\<close>: the statement is executed, the country of
  the place is looked up and read back for the response.\<close>

definition execUpdatePlace ::
  "timestamp \<Rightarrow> nat option \<Rightarrow> database \<Rightarrow> int64 \<Rightarrow> string option \<Rightarrow> string option
     \<Rightarrow> string option \<Rightarrow> string option \<Rightarrow> bool \<Rightarrow> date option \<Rightarrow> travel_result" where
  "execUpdatePlace now fault db placeID name category city description setVisited visitedAt =
     (if fault = Some 0
      then \<lparr>resp_status = 500, resp_body = DatabaseError, db_after = db\<rparr>
      else
        (case update_places now name category city description
                setVisited visitedAt placeID db of
           (db', affected) \<Rightarrow>
             if affected = 0
             then \<lparr>resp_status = 404, resp_body = ErrorMessage ''place not found'',
                   db_after = db'\<rparr>
             else if fault = Some 1
             then \<lparr>resp_status = 500, resp_body = DatabaseError, db_after = db'\<rparr>
             else
               (case find_place db' placeID of
                  None \<Rightarrow> \<lparr>resp_status = 500, resp_body = DatabaseError, db_after = db'\<rparr>
                | Some place \<Rightarrow>
                    (case fetchCountry fault 2 db' (places_country_id place) of
                       Inl err \<Rightarrow> \<lparr>resp_status = 500, resp_body = DatabaseError,
                                   db_after = db'\<rparr>
                     | Inr country \<Rightarrow> \<lparr>resp_status = 200, resp_body = CountryJSON country,
                                       db_after = db'\<rparr>))))"

definition updatePlace ::
  "timestamp \<Rightarrow> nat option \<Rightarrow> database \<Rightarrow> string \<Rightarrow> json_body \<Rightarrow> travel_result" where
  "updatePlace now fault db idParam request =
     (case parseIDParam idParam of
        None \<Rightarrow> \<lparr>resp_status = 400, resp_body = ParamError, db_after = db\<rparr>
      | Some placeID \<Rightarrow>
        (case bindPlaceInput request of
           None \<Rightarrow> \<lparr>resp_status = 400, resp_body = BindError, db_after = db\<rparr>
         | Some (inputName, inputCategory, inputCity, inputDescription, inputVisitedAt) \<Rightarrow>
             (case resolveVisitedAt inputVisitedAt of
                None \<Rightarrow>
                  \<lparr>resp_status = 400,
                   resp_body = ErrorMessage ''invalid visited_at format, expected YYYY-MM-DD'',
                   db_after = db\<rparr>
              | Some (setVisited, visitedAt) \<Rightarrow>
                  (let name = map_option TrimSpace inputName;
                       category = map_option TrimSpace inputCategory;
                       city = map_option TrimSpace inputCity;
                       description = map_option TrimSpace inputDescription
                   in execUpdatePlace now fault db placeID name category city description
                        setVisited visitedAt))))"

text \<open>A small database for concrete runs: Indonesia with one visited place.\<close>

definition sample_db :: database where
  "sample_db =
     \<lparr>countries = [\<lparr>countries_id = 1, countries_name = ''Indonesia'',
                     countries_description = ''Islands'',
                     countries_created_at = 10, countries_updated_at = 10\<rparr>],
      places = [\<lparr>places_id = 7, places_country_id = 1, places_name = ''Ubud'',
                  places_category = ''Town'', places_city = ''Gianyar'',
                  places_description = ''Rice terraces'',
                  places_visited_at = Some (2024, 5, 1),
                  places_created_at = 11, places_updated_at = 11\<rparr>]\<rparr>"

section \<open>Properties of the search engine backend\<close>


lemma sint_of_int_range:
  "- (2 ^ 63) \<le> k \<Longrightarrow> k < 2 ^ 63 \<Longrightarrow> sint (word_of_int k :: go_int) = k"
proof -
  assume "- (2 ^ 63) \<le> k" "k < 2 ^ 63"
  then have "signed_take_bit 63 k = k"
    by (intro signed_take_bit_int_eq_self) simp_all
  then show ?thesis by (simp only: sint_sbintrunc') simp
qed

lemma ceil_div_int:
  fixes a b :: int
  assumes "0 < b"
  shows "(a + b - 1) div b = \<lceil>real_of_int a / real_of_int b\<rceil>"
proof -
  have "(a + b - 1) div b = - (- a div b)"
  proof (cases "a mod b = 0")
    case True
    then obtain k where k: "a = b * k" by (metis mod_eq_0_iff_dvd dvdE)
    have "(b * k + (b - 1)) div b = k"
      using assms by (subst div_mult_self4) (simp_all add: div_pos_pos_trivial)
    moreover have "(- (b * k)) div b = - k"
    proof -
      have "- (b * k) = b * (- k)" by simp
      then show ?thesis using assms by (metis less_irrefl nonzero_mult_div_cancel_left)
    qed
    ultimately show ?thesis using k by (simp add: algebra_simps)
  next
    case False
    have "0 \<le> a mod b" using assms by simp
    with False have "0 < a mod b" by linarith
    then have m: "0 < a mod b" "a mod b < b"
      using assms by simp_all
    have "a = b * (a div b) + a mod b" by simp
    then have "a + b - 1 = b * (a div b + 1) + (a mod b - 1)"
      by (simp add: distrib_left)
    then have "(a + b - 1) div b = (b * (a div b + 1) + (a mod b - 1)) div b"
      by (rule arg_cong)
    also have "\<dots> = a div b + 1"
    proof -
      have "a mod b - 1 < b" "0 \<le> a mod b - 1" using m by linarith+
      then have "(a mod b - 1) div b = 0" by (simp only: div_pos_pos_trivial)
      then show ?thesis using assms by (subst div_mult_self4) simp_all
    qed
    finally show ?thesis using False assms by (simp add: zdiv_zminus1_eq_if)
  qed
  then show ?thesis by (simp add: ceiling_divide_eq_div)
qed

lemma sint_go_div_ceiling:
  assumes t: "0 \<le> sint t" and ps: "1 \<le> sint ps"
    and nov: "sint t + sint ps - 1 < 2 ^ 63"
    and d: "go_div (t + ps - 1) ps = Some tp"
  shows "sint tp = \<lceil>real_of_int (sint t) / real_of_int (sint ps)\<rceil>"
proof -
  let ?n = "sint t + sint ps - 1"
  have n0: "0 \<le> ?n" using t ps by simp
  have "t + ps - 1 = word_of_int ?n" by simp
  then have sn: "sint (t + ps - 1) = ?n"
    using n0 nov by (simp only: sint_of_int_range)
  have q: "?n sdiv sint ps = ?n div sint ps"
    using n0 ps by (simp add: signed_divide_int_def sgn_if)
  have q0: "0 \<le> ?n div sint ps" using n0 ps by (simp add: pos_imp_zdiv_nonneg_iff)
  have "?n div sint ps \<le> ?n div 1" using n0 ps by (intro zdiv_mono2) simp_all
  then have q1: "?n div sint ps \<le> ?n" by simp
  have "tp = word_of_int (?n div sint ps)"
    using d sn q by (simp add: go_div_def split: if_splits)
  then have "sint tp = ?n div sint ps"
    using q0 q1 nov by (simp only: sint_of_int_range)
  then show ?thesis using ceil_div_int[of "sint ps" "sint t"] ps by simp
qed

lemma searchPage_ge1: "1 \<le> sint (searchPage qs)"
  by (simp add: searchPage_def Let_def)

lemma searchPageSize_range:
  "1 \<le> sint (searchPageSize qs) \<and> sint (searchPageSize qs) \<le> 50"
  by (auto simp add: searchPageSize_def Let_def)

lemma searchPageSize_nonzero: "searchPageSize qs \<noteq> 0"
  using searchPageSize_range [of qs] by auto

lemma body_from_exact:
  assumes "(sint (searchPage qs) - 1) * sint (searchPageSize qs) < 2 ^ 63"
  shows "sint (body_from (searchBody qs)) =
         (sint (searchPage qs) - 1) * sint (searchPageSize qs)"
proof -
  let ?p = "searchPage qs" and ?s = "searchPageSize qs"
  have p: "1 \<le> sint ?p" by (rule searchPage_ge1)
  have s: "1 \<le> sint ?s" using searchPageSize_range by auto
  have "0 \<le> (sint ?p - 1) * sint ?s" using p s by simp
  moreover have "(?p - 1) * ?s = word_of_int ((sint ?p - 1) * sint ?s)" by simp
  ultimately have "sint ((?p - 1) * ?s) = (sint ?p - 1) * sint ?s"
    using assms by (simp only: sint_of_int_range)
  then show ?thesis by (simp add: searchBody_def Let_def)
qed

lemmas parse_simps = Query_def parseIntWithDefault_def Atoi_def ParseInt64_def
  decimal_integer_def decimal_value_def is_digit_def

lemma handleSearchMovies_Movies:
  assumes "handleSearchMovies ops es qs = (st, MoviesJSON ms pg)"
  shows "st = 200 \<and> Page pg = searchPage qs \<and> PageSize pg = searchPageSize qs
         \<and> (\<exists>hits. Search es (searchBody qs) = SearchHits (TotalHits pg) hits)
         \<and> go_div (TotalHits pg + PageSize pg - 1) (PageSize pg) = Some (TotalPages pg)"
  using assms
  by (auto simp add: handleSearchMovies_def Let_def
           split: if_splits search_outcome.splits option.splits)

text \<open>
  Claim C3.  For every search request the handler clamps a page below 1 to 1, replaces
  a page size outside \<open>(0, 50]\<close> by the default 5, and sends the offset
  \<open>from = (page - 1) * pageSize\<close> computed from the substituted values.  The
  product is Go's \<open>int\<close> product; it is the product of the integers whenever that
  fits 64 bits.
\<close>

theorem search_page_substitution:
  "(sint (parseIntWithDefault (Query qs ''page'') 1) < 1 \<longrightarrow> searchPage qs = 1)
   \<and> (1 \<le> sint (parseIntWithDefault (Query qs ''page'') 1)
        \<longrightarrow> searchPage qs = parseIntWithDefault (Query qs ''page'') 1)
   \<and> (sint (parseIntWithDefault (Query qs ''pageSize'') 5) \<le> 0
        \<or> 50 < sint (parseIntWithDefault (Query qs ''pageSize'') 5)
        \<longrightarrow> searchPageSize qs = 5)
   \<and> (0 < sint (parseIntWithDefault (Query qs ''pageSize'') 5)
        \<and> sint (parseIntWithDefault (Query qs ''pageSize'') 5) \<le> 50
        \<longrightarrow> searchPageSize qs = parseIntWithDefault (Query qs ''pageSize'') 5)
   \<and> body_size (searchBody qs) = searchPageSize qs
   \<and> body_from (searchBody qs) = (searchPage qs - 1) * searchPageSize qs
   \<and> ((sint (searchPage qs) - 1) * sint (searchPageSize qs) < 2 ^ 63
        \<longrightarrow> sint (body_from (searchBody qs))
            = (sint (searchPage qs) - 1) * sint (searchPageSize qs))"
proof -
  have "body_size (searchBody qs) = searchPageSize qs"
    and "body_from (searchBody qs) = (searchPage qs - 1) * searchPageSize qs"
    by (simp_all add: searchBody_def Let_def)
  moreover have "sint (parseIntWithDefault (Query qs ''page'') 1) < 1 \<longrightarrow> searchPage qs = 1"
    and "1 \<le> sint (parseIntWithDefault (Query qs ''page'') 1)
        \<longrightarrow> searchPage qs = parseIntWithDefault (Query qs ''page'') 1"
    by (simp_all add: searchPage_def Let_def)
  moreover have "sint (parseIntWithDefault (Query qs ''pageSize'') 5) \<le> 0
        \<or> 50 < sint (parseIntWithDefault (Query qs ''pageSize'') 5)
        \<longrightarrow> searchPageSize qs = 5"
    and "0 < sint (parseIntWithDefault (Query qs ''pageSize'') 5)
        \<and> sint (parseIntWithDefault (Query qs ''pageSize'') 5) \<le> 50
        \<longrightarrow> searchPageSize qs = parseIntWithDefault (Query qs ''pageSize'') 5"
    by (auto simp add: searchPageSize_def Let_def)
  ultimately show ?thesis using body_from_exact [of qs] by blast
qed

theorem search_page_substitution_witness:
  "1 \<le> sint (parseIntWithDefault (Query [(''page'', ''3''), (''pageSize'', ''10'')] ''page'') 1)
   \<and> searchPage [(''page'', ''3''), (''pageSize'', ''10'')] = 3
   \<and> searchPageSize [(''page'', ''3''), (''pageSize'', ''10'')] = 10
   \<and> sint (body_from (searchBody [(''page'', ''3''), (''pageSize'', ''10'')])) = 20
   \<and> sint (parseIntWithDefault (Query [(''page'', ''-3''), (''pageSize'', ''51'')] ''page'') 1) < 1
   \<and> 50 < sint (parseIntWithDefault (Query [(''page'', ''-3''), (''pageSize'', ''51'')] ''pageSize'') 5)
   \<and> searchPage [(''page'', ''-3''), (''pageSize'', ''51'')] = 1
   \<and> searchPageSize [(''page'', ''-3''), (''pageSize'', ''51'')] = 5
   \<and> body_from (searchBody [(''page'', ''-3''), (''pageSize'', ''51'')]) = 0"
proof -
  have a: "parseIntWithDefault (Query [(''page'', ''3''), (''pageSize'', ''10'')] ''page'') 1 = 3"
    and b: "parseIntWithDefault (Query [(''page'', ''3''), (''pageSize'', ''10'')] ''pageSize'') 5 = 10"
    and c: "parseIntWithDefault (Query [(''page'', ''-3''), (''pageSize'', ''51'')] ''page'') 1 = - 3"
    and d: "parseIntWithDefault (Query [(''page'', ''-3''), (''pageSize'', ''51'')] ''pageSize'') 5 = 51"
    by (simp_all add: parse_simps)
  show ?thesis
    using search_page_substitution [of "[(''page'', ''3''), (''pageSize'', ''10'')]"]
      search_page_substitution [of "[(''page'', ''-3''), (''pageSize'', ''51'')]"]
    by (simp add: a b c d)
qed

text \<open>
  Claim C4, as amended.  For every search response whose total is not negative and
  small enough that \<open>total_hits + pageSize - 1\<close> does not exceed the largest
  \<open>int\<close>, \<open>total_pages\<close> is the ceiling of \<open>total_hits / pageSize\<close>; the
  page size of a response is at least 1; \<open>total_pages\<close> is 1 for 5 hits on pages of
  5, and 0 for no hits.
\<close>

theorem total_pages_is_ceiling:
  assumes "handleSearchMovies ops es qs = (st, MoviesJSON ms pg)"
    and "0 \<le> sint (TotalHits pg)"
    and "sint (TotalHits pg) + sint (PageSize pg) - 1 < 2 ^ 63"
  shows "1 \<le> sint (PageSize pg)
     \<and> (\<exists>hits. Search es (searchBody qs) = SearchHits (TotalHits pg) hits)
     \<and> sint (TotalPages pg)
         = \<lceil>real_of_int (sint (TotalHits pg)) / real_of_int (sint (PageSize pg))\<rceil>
     \<and> (TotalHits pg = 5 \<and> PageSize pg = 5 \<longrightarrow> TotalPages pg = 1)
     \<and> (TotalHits pg = 0 \<longrightarrow> TotalPages pg = 0)"
proof -
  note h = handleSearchMovies_Movies [OF assms(1)]
  have ps: "1 \<le> sint (PageSize pg)" using h searchPageSize_range [of qs] by simp
  have d: "go_div (TotalHits pg + PageSize pg - 1) (PageSize pg) = Some (TotalPages pg)"
    using h by blast
  have c: "sint (TotalPages pg)
         = \<lceil>real_of_int (sint (TotalHits pg)) / real_of_int (sint (PageSize pg))\<rceil>"
    by (rule sint_go_div_ceiling [OF assms(2) ps assms(3) d])
  have "TotalHits pg = 5 \<and> PageSize pg = 5 \<longrightarrow> TotalPages pg = 1"
    using d by (auto simp add: go_div_def signed_divide_int_def)
  moreover have "TotalHits pg = 0 \<longrightarrow> TotalPages pg = 0"
  proof
    assume z: "TotalHits pg = 0"
    then have "sint (TotalPages pg) = 0" using c by simp
    then show "TotalPages pg = 0" by (simp only: signed_eq_0_iff)
  qed
  ultimately show ?thesis using ps c h by blast
qed

theorem total_pages_is_ceiling_witness:
  "handleSearchMovies int_float64 (const_client (SearchHits 11 [])) [(''pageSize'', ''5'')]
     = (200, MoviesJSON [] \<lparr>Page = 1, PageSize = 5, TotalHits = 11, TotalPages = 3\<rparr>)
   \<and> sint (3 :: go_int) = \<lceil>real_of_int (sint (11 :: go_int)) / real_of_int (sint (5 :: go_int))\<rceil>"
proof -
  have h: "handleSearchMovies int_float64 (const_client (SearchHits 11 [])) [(''pageSize'', ''5'')]
     = (200, MoviesJSON [] \<lparr>Page = 1, PageSize = 5, TotalHits = 11, TotalPages = 3\<rparr>)"
    by (simp add: handleSearchMovies_def const_client_def searchPage_def searchPageSize_def
          searchBody_def parse_simps go_div_def signed_divide_int_def)
  show ?thesis using total_pages_is_ceiling [OF h] h by simp
qed

text \<open>
  Claim C4 as stated fails where the sum overflows: for the total
  \<open>9223372036854775807\<close> and the default page size 5 the handler answers with a
  negative \<open>total_pages\<close>.
\<close>

theorem total_pages_overflow:
  "handleSearchMovies int_float64 (const_client (SearchHits 9223372036854775807 [])) []
     = (200, MoviesJSON [] \<lparr>Page = 1, PageSize = 5, TotalHits = 9223372036854775807,
                                TotalPages = word_of_int (- 1844674407370955161)\<rparr>)
   \<and> 0 \<le> sint (9223372036854775807 :: go_int) \<and> 1 \<le> sint (5 :: go_int)
   \<and> sint (word_of_int (- 1844674407370955161) :: go_int)
       \<noteq> \<lceil>real_of_int (sint (9223372036854775807 :: go_int)) / real_of_int (sint (5 :: go_int))\<rceil>"
  by (simp add: handleSearchMovies_def const_client_def searchPage_def searchPageSize_def
        searchBody_def parseIntWithDefault_def Query_def go_div_def signed_divide_int_def)

text \<open>
  Claim C5.  An empty free-text query \<open>q\<close> gives the \<open>match_all\<close> predicate; every
  non-empty \<open>q\<close> gives a \<open>multi_match\<close> of that text over exactly the fields title,
  description and genre, the title with weight 2 and the other two with weight 1.  The
  response of the handler depends on the index only through the search for this body.
\<close>

theorem search_query_predicate:
  "(Query qs ''q'' = [] \<longrightarrow> body_query (searchBody qs) = match_all)
   \<and> (Query qs ''q'' \<noteq> [] \<longrightarrow>
        body_query (searchBody qs)
          = multi_match (Query qs ''q'') [''title^2'', ''description'', ''genre''])
   \<and> map field_weight [''title^2'', ''description'', ''genre'']
        = [(''title'', 2), (''description'', 1), (''genre'', 1)]
   \<and> (encodes es' (searchBody qs) = encodes es (searchBody qs)
        \<and> Search es' (searchBody qs) = Search es (searchBody qs)
        \<longrightarrow> handleSearchMovies ops es' qs = handleSearchMovies ops es qs)"
proof -
  have "Query qs ''q'' = [] \<longrightarrow> body_query (searchBody qs) = match_all"
    and "Query qs ''q'' \<noteq> [] \<longrightarrow>
        body_query (searchBody qs)
          = multi_match (Query qs ''q'') [''title^2'', ''description'', ''genre'']"
    by (simp_all add: searchBody_def Let_def)
  moreover have "map field_weight [''title^2'', ''description'', ''genre'']
        = [(''title'', 2), (''description'', 1), (''genre'', 1)]"
    by simp
  moreover have "encodes es' (searchBody qs) = encodes es (searchBody qs)
        \<and> Search es' (searchBody qs) = Search es (searchBody qs)
        \<longrightarrow> handleSearchMovies ops es' qs = handleSearchMovies ops es qs"
    by (simp add: handleSearchMovies_def Let_def)
  ultimately show ?thesis by blast
qed

theorem search_query_predicate_witness:
  "Query [(''page'', ''1'')] ''q'' = []
   \<and> body_query (searchBody [(''page'', ''1'')]) = match_all
   \<and> Query [(''q'', ''dark knight'')] ''q'' \<noteq> []
   \<and> body_query (searchBody [(''q'', ''dark knight'')])
       = multi_match ''dark knight'' [''title^2'', ''description'', ''genre'']
   \<and> handleSearchMovies int_float64 (const_client SearchFailed) [(''q'', ''dark knight'')]
       = handleSearchMovies int_float64
           \<lparr>encodes = (\<lambda>body. True), Search = (\<lambda>body. SearchFailed)\<rparr>
           [(''q'', ''dark knight'')]"
proof -
  have a: "Query [(''page'', ''1'')] ''q'' = []"
    and b: "Query [(''q'', ''dark knight'')] ''q'' = ''dark knight''"
    by (simp_all add: Query_def)
  show ?thesis
    using search_query_predicate [where qs = "[(''page'', ''1'')]"
        and es' = "const_client SearchFailed" and es = "const_client SearchFailed"
        and ops = int_float64]
      search_query_predicate [where qs = "[(''q'', ''dark knight'')]"
        and es' = "const_client SearchFailed"
        and es = "\<lparr>encodes = (\<lambda>body. True), Search = (\<lambda>body. SearchFailed)\<rparr>"
        and ops = int_float64]
    by (simp add: a b const_client_def)
qed

text \<open>
  Claim C9.  A page or page size parameter that is empty or not a decimal integer (or
  that \<open>strconv.Atoi\<close> refuses for its size) is replaced by the default, page 1 and
  page size 5, and the search goes on: the status of the response is 200 or 500, never
  a 4xx, and hits returned by the index are answered with status 200 and the
  substituted page and page size.
\<close>

theorem malformed_paging_defaults:
  "(Query qs ''page'' = [] \<or> \<not> decimal_integer (Query qs ''page'')
      \<or> Atoi (Query qs ''page'') = None \<longrightarrow> searchPage qs = 1)
   \<and> (Query qs ''pageSize'' = [] \<or> \<not> decimal_integer (Query qs ''pageSize'')
      \<or> Atoi (Query qs ''pageSize'') = None \<longrightarrow> searchPageSize qs = 5)
   \<and> (fst (handleSearchMovies ops es qs) = 200 \<or> fst (handleSearchMovies ops es qs) = 500)
   \<and> (encodes es (searchBody qs) \<and> Search es (searchBody qs) = SearchHits totalHits hits
        \<longrightarrow> (\<exists>movies totalPages.
              handleSearchMovies ops es qs
                = (200, MoviesJSON movies
                          \<lparr>Page = searchPage qs, PageSize = searchPageSize qs,
                           TotalHits = totalHits, TotalPages = totalPages\<rparr>)))"
proof -
  have p: "Query qs ''page'' = [] \<or> \<not> decimal_integer (Query qs ''page'')
      \<or> Atoi (Query qs ''page'') = None \<longrightarrow> searchPage qs = 1"
    by (auto simp add: searchPage_def parseIntWithDefault_def Atoi_def ParseInt64_def)
  have s: "Query qs ''pageSize'' = [] \<or> \<not> decimal_integer (Query qs ''pageSize'')
      \<or> Atoi (Query qs ''pageSize'') = None \<longrightarrow> searchPageSize qs = 5"
    by (auto simp add: searchPageSize_def parseIntWithDefault_def Atoi_def ParseInt64_def)
  have st: "fst (handleSearchMovies ops es qs) = 200 \<or> fst (handleSearchMovies ops es qs) = 500"
    by (simp add: handleSearchMovies_def Let_def split: search_outcome.splits option.splits)
  have ok: "encodes es (searchBody qs) \<and> Search es (searchBody qs) = SearchHits totalHits hits
        \<longrightarrow> (\<exists>movies totalPages.
              handleSearchMovies ops es qs
                = (200, MoviesJSON movies
                          \<lparr>Page = searchPage qs, PageSize = searchPageSize qs,
                           TotalHits = totalHits, TotalPages = totalPages\<rparr>))"
    using searchPageSize_nonzero [of qs]
    by (simp add: handleSearchMovies_def Let_def go_div_def)
  from p s st ok show ?thesis by blast
qed

theorem malformed_paging_defaults_witness:
  "\<not> decimal_integer (Query [(''page'', ''abc''), (''pageSize'', '''')] ''page'')
   \<and> Query [(''page'', ''abc''), (''pageSize'', '''')] ''pageSize'' = []
   \<and> searchPage [(''page'', ''abc''), (''pageSize'', '''')] = 1
   \<and> searchPageSize [(''page'', ''abc''), (''pageSize'', '''')] = 5
   \<and> handleSearchMovies int_float64 (const_client (SearchHits 5 []))
         [(''page'', ''abc''), (''pageSize'', '''')]
       = (200, MoviesJSON [] \<lparr>Page = 1, PageSize = 5, TotalHits = 5, TotalPages = 1\<rparr>)"
proof -
  have a: "\<not> decimal_integer (Query [(''page'', ''abc''), (''pageSize'', '''')] ''page'')"
    and b: "Query [(''page'', ''abc''), (''pageSize'', '''')] ''pageSize'' = []"
    by (simp_all add: Query_def decimal_integer_def is_digit_def)
  have c: "encodes (const_client (SearchHits 5 [])) body"
    and d: "Search (const_client (SearchHits 5 [])) body = SearchHits 5 []" for body
    by (simp_all add: const_client_def)
  have e: "handleSearchMovies int_float64 (const_client (SearchHits 5 []))
         [(''page'', ''abc''), (''pageSize'', '''')]
       = (200, MoviesJSON [] \<lparr>Page = 1, PageSize = 5, TotalHits = 5, TotalPages = 1\<rparr>)"
    by (simp add: handleSearchMovies_def const_client_def searchPage_def searchPageSize_def
          searchBody_def parse_simps go_div_def signed_divide_int_def)
  show ?thesis
    using a b e
      malformed_paging_defaults [where qs = "[(''page'', ''abc''), (''pageSize'', '''')]"
        and ops = int_float64 and es = "const_client (SearchHits 5 [])"
        and totalHits = 5 and hits = "[]"]
    by simp
qed

section \<open>Properties of the currency converter backend\<close>

lemma fetchRate_nonzero:
  "fetchRate ops api base target = Inr rate \<Longrightarrow> \<not> is_zero ops rate"
  by (auto simp add: fetchRate_def Let_def
           split: chart_reply.splits if_splits option.splits list.splits)

lemma convertHandler_fetch_error:
  assumes "(b, t) \<in> set (fetched (convertHandler ops f r))" and "f b t = Inl err"
  shows "status (convertHandler ops f r) = 502
         \<and> body (convertHandler ops f r) = PlainText ''failed to fetch rate''"
  using assms
  by (auto simp add: convertHandler_def Let_def split: if_splits option.splits sum.splits)

lemma convertHandler_fetches:
  assumes "Method r = ''GET''"
    and "ToUpper ops (Query (URLQuery r) ''base'') \<noteq> []"
    and "ToUpper ops (Query (URLQuery r) ''target'') \<noteq> []"
    and "Query (URLQuery r) ''amount'' = [] \<or> ParseFloat ops (Query (URLQuery r) ''amount'') = Some a"
  shows "fetched (convertHandler ops f r)
         = [(ToUpper ops (Query (URLQuery r) ''base''), ToUpper ops (Query (URLQuery r) ''target''))]"
  using assms
  by (auto simp add: convertHandler_def Let_def split: if_splits option.splits sum.splits)

lemmas convert_simps = convertHandler_def Let_def Query_def upper_char_def int_float64_def
  decimal_integer_def decimal_value_def is_digit_def

text \<open>
  Claim C6.  \<open>fetchRate\<close> returns an error and no rate when the first result's price is
  zero or missing, when there is no result, and on a transport error, a status other
  than 200 or a body that does not decode; a rate it returns is never zero.  When the
  handler has called the fetcher and the fetcher failed, the response is status 502
  with the fixed message \<open>failed to fetch rate\<close>.  (The zero value \<open>0.0\<close> compares
  equal to zero.)
\<close>

theorem fetch_failures:
  assumes zero: "is_zero ops (fzero ops)"
  shows "(api (chartEndpoint base target) = DoFailed
            \<longrightarrow> fetchRate ops api base target = Inl TransportError)
     \<and> (api (chartEndpoint base target) = RequestRejected
            \<longrightarrow> fetchRate ops api base target = Inl NewRequestError)
     \<and> (api (chartEndpoint base target) = Reply code decoded \<and> code \<noteq> 200
            \<longrightarrow> fetchRate ops api base target = Inl (UnexpectedStatus code))
     \<and> (api (chartEndpoint base target) = Reply 200 None
            \<longrightarrow> fetchRate ops api base target = Inl DecodeError)
     \<and> (api (chartEndpoint base target) = Reply 200 (Some payload)
          \<and> \<not> chart_Error payload \<and> chart_Result payload = []
            \<longrightarrow> fetchRate ops api base target = Inl NoResults)
     \<and> (api (chartEndpoint base target) = Reply 200 (Some payload)
          \<and> \<not> chart_Error payload \<and> chart_Result payload = None # rest
            \<longrightarrow> fetchRate ops api base target = Inl ZeroPrice)
     \<and> (api (chartEndpoint base target) = Reply 200 (Some payload)
          \<and> \<not> chart_Error payload \<and> chart_Result payload = Some price # rest
          \<and> is_zero ops price
            \<longrightarrow> fetchRate ops api base target = Inl ZeroPrice)
     \<and> (fetchRate ops api base target = Inr rate \<longrightarrow> \<not> is_zero ops rate)
     \<and> ((b, t) \<in> set (fetched (convertHandler ops f r)) \<and> f b t = Inl err
            \<longrightarrow> status (convertHandler ops f r) = 502
                \<and> body (convertHandler ops f r) = PlainText ''failed to fetch rate'')
     \<and> (Method r = ''GET'' \<and> ToUpper ops (Query (URLQuery r) ''base'') \<noteq> []
          \<and> ToUpper ops (Query (URLQuery r) ''target'') \<noteq> []
          \<and> Query (URLQuery r) ''amount'' = []
            \<longrightarrow> fetched (convertHandler ops f r)
                = [(ToUpper ops (Query (URLQuery r) ''base''),
                    ToUpper ops (Query (URLQuery r) ''target''))])"
proof -
  have 1: "api (chartEndpoint base target) = DoFailed
            \<longrightarrow> fetchRate ops api base target = Inl TransportError"
    and 2: "api (chartEndpoint base target) = RequestRejected
            \<longrightarrow> fetchRate ops api base target = Inl NewRequestError"
    and 3: "api (chartEndpoint base target) = Reply code decoded \<and> code \<noteq> 200
            \<longrightarrow> fetchRate ops api base target = Inl (UnexpectedStatus code)"
    and 4: "api (chartEndpoint base target) = Reply 200 None
            \<longrightarrow> fetchRate ops api base target = Inl DecodeError"
    and 5: "api (chartEndpoint base target) = Reply 200 (Some payload)
          \<and> \<not> chart_Error payload \<and> chart_Result payload = []
            \<longrightarrow> fetchRate ops api base target = Inl NoResults"
    by (simp_all add: fetchRate_def)
  have 6: "api (chartEndpoint base target) = Reply 200 (Some payload)
          \<and> \<not> chart_Error payload \<and> chart_Result payload = None # rest
            \<longrightarrow> fetchRate ops api base target = Inl ZeroPrice"
    using zero by (simp add: fetchRate_def)
  have 7: "api (chartEndpoint base target) = Reply 200 (Some payload)
          \<and> \<not> chart_Error payload \<and> chart_Result payload = Some price # rest
          \<and> is_zero ops price
            \<longrightarrow> fetchRate ops api base target = Inl ZeroPrice"
    by (simp add: fetchRate_def)
  have 8: "fetchRate ops api base target = Inr rate \<longrightarrow> \<not> is_zero ops rate"
    by (rule impI) (rule fetchRate_nonzero)
  have 9: "(b, t) \<in> set (fetched (convertHandler ops f r)) \<and> f b t = Inl err
            \<longrightarrow> status (convertHandler ops f r) = 502
                \<and> body (convertHandler ops f r) = PlainText ''failed to fetch rate''"
    using convertHandler_fetch_error by blast
  have 10: "Method r = ''GET'' \<and> ToUpper ops (Query (URLQuery r) ''base'') \<noteq> []
          \<and> ToUpper ops (Query (URLQuery r) ''target'') \<noteq> []
          \<and> Query (URLQuery r) ''amount'' = []
            \<longrightarrow> fetched (convertHandler ops f r)
                = [(ToUpper ops (Query (URLQuery r) ''base''),
                    ToUpper ops (Query (URLQuery r) ''target''))]"
    using convertHandler_fetches [of r ops] by blast
  from 1 2 3 4 5 6 7 8 9 10 show ?thesis by blast
qed

theorem fetch_failures_witness:
  "is_zero int_float64 (fzero int_float64)
   \<and> fetchRate int_float64
       (const_api (Reply 200 (Some \<lparr>chart_Error = False, chart_Result = [Some 0]\<rparr>)))
       ''USD'' ''IDR'' = Inl ZeroPrice
   \<and> fetchRate int_float64
       (const_api (Reply 200 (Some \<lparr>chart_Error = False, chart_Result = [None]\<rparr>)))
       ''USD'' ''IDR'' = Inl ZeroPrice
   \<and> fetchRate int_float64 (const_api DoFailed) ''USD'' ''IDR'' = Inl TransportError
   \<and> fetchRate int_float64 (const_api (Reply 503 None)) ''USD'' ''IDR''
       = Inl (UnexpectedStatus 503)
   \<and> convertHandler int_float64 (failing_fetcher ZeroPrice)
       \<lparr>Method = ''GET'', URLQuery = [(''base'', ''usd''), (''target'', ''idr'')]\<rparr>
       = \<lparr>status = 502, body = PlainText ''failed to fetch rate'',
          fetched = [(''USD'', ''IDR'')]\<rparr>"
proof -
  have z: "is_zero int_float64 (fzero int_float64)" by (simp add: int_float64_def)
  have f: "fetched (convertHandler int_float64 (failing_fetcher ZeroPrice)
       \<lparr>Method = ''GET'', URLQuery = [(''base'', ''usd''), (''target'', ''idr'')]\<rparr>)
       = [(''USD'', ''IDR'')]"
    by (simp add: convert_simps failing_fetcher_def)
  have e: "convertHandler int_float64 (failing_fetcher ZeroPrice)
       \<lparr>Method = ''GET'', URLQuery = [(''base'', ''usd''), (''target'', ''idr'')]\<rparr>
       = \<lparr>status = 502, body = PlainText ''failed to fetch rate'',
          fetched = [(''USD'', ''IDR'')]\<rparr>"
    by (simp add: convert_simps failing_fetcher_def)
  show ?thesis
    using z e
      fetch_failures [OF z, where api = "const_api (Reply 200 (Some \<lparr>chart_Error = False, chart_Result = [Some 0]\<rparr>))"
        and base = "''USD''" and target = "''IDR''" and code = 200
        and decoded = "Some \<lparr>chart_Error = False, chart_Result = [Some 0]\<rparr>"
        and payload = "\<lparr>chart_Error = False, chart_Result = [Some 0]\<rparr>"
        and rest = "[]" and price = 0 and rate = 1 and b = "''USD''" and t = "''IDR''"
        and f = "failing_fetcher ZeroPrice" and err = ZeroPrice
        and r = "\<lparr>Method = ''GET'', URLQuery = [(''base'', ''usd''), (''target'', ''idr'')]\<rparr>"]
    by (simp add: const_api_def fetchRate_def int_float64_def)
qed

lemma Query_without:
  "Query (filter (\<lambda>p. fst p \<noteq> k) qs) key = (if key = k then [] else Query qs key)"
  by (induction qs) (auto simp add: Query_def)

lemma convertHandler_query:
  assumes "Query (URLQuery r') ''base'' = Query (URLQuery r) ''base''"
    and "Query (URLQuery r') ''target'' = Query (URLQuery r) ''target''"
    and "Query (URLQuery r') ''amount'' = Query (URLQuery r) ''amount''"
    and "Method r' = Method r"
  shows "convertHandler ops f r' = convertHandler ops f r"
  by (simp add: convertHandler_def assms)

text \<open>
  Claim C7, as amended.  For every GET request whose amount parameter is not empty and
  not parseable as a number, the handler returns status 400 with a validation message
  and does not call the rate fetcher; the message is \<open>amount must be a number\<close> when
  base and target are given.  An amount parameter that is present and empty is handled
  exactly as an absent one: the response is that of the request without the parameter,
  and when base and target are not empty (after upper-casing) the handler calls the rate
  fetcher, does not answer 400, and a rate that encodes is answered with the amount 1.
\<close>

theorem unparseable_amount_rejected:
  assumes "Method r = ''GET''"
  shows "(Query (URLQuery r) ''amount'' \<noteq> []
          \<and> ParseFloat ops (Query (URLQuery r) ''amount'') = None
        \<longrightarrow> status (convertHandler ops f r) = 400
          \<and> fetched (convertHandler ops f r) = []
          \<and> (body (convertHandler ops f r) = PlainText ''amount must be a number''
             \<or> body (convertHandler ops f r)
                 = PlainText ''base and target query parameters are required'')
          \<and> (ToUpper ops (Query (URLQuery r) ''base'') \<noteq> []
             \<and> ToUpper ops (Query (URLQuery r) ''target'') \<noteq> []
               \<longrightarrow> body (convertHandler ops f r) = PlainText ''amount must be a number''))
     \<and> (Query (URLQuery r) ''amount'' = []
        \<longrightarrow> convertHandler ops f r
            = convertHandler ops f
                (r\<lparr>URLQuery := filter (\<lambda>p. fst p \<noteq> ''amount'') (URLQuery r)\<rparr>)
          \<and> (ToUpper ops (Query (URLQuery r) ''base'') \<noteq> []
             \<and> ToUpper ops (Query (URLQuery r) ''target'') \<noteq> []
               \<longrightarrow> fetched (convertHandler ops f r)
                     = [(ToUpper ops (Query (URLQuery r) ''base''),
                         ToUpper ops (Query (URLQuery r) ''target''))]
                 \<and> status (convertHandler ops f r) \<noteq> 400
                 \<and> (\<forall>rate. f (ToUpper ops (Query (URLQuery r) ''base''))
                              (ToUpper ops (Query (URLQuery r) ''target'')) = Inr rate
                           \<and> json_encodable ops rate \<and> json_encodable ops (fone ops)
                           \<and> json_encodable ops (fmul ops rate (fone ops))
                       \<longrightarrow> convertHandler ops f r
                           = \<lparr>status = 200,
                              body = ConvertJSON
                                \<lparr>Base = ToUpper ops (Query (URLQuery r) ''base''),
                                 Target = ToUpper ops (Query (URLQuery r) ''target''),
                                 Amount = fone ops, Rate = rate,
                                 Converted = fmul ops rate (fone ops),
                                 Source = ''yahoo-finance''\<rparr>,
                              fetched = [(ToUpper ops (Query (URLQuery r) ''base''),
                                          ToUpper ops (Query (URLQuery r) ''target''))]\<rparr>)))"
proof (intro conjI impI allI)
  assume "Query (URLQuery r) ''amount'' \<noteq> []
          \<and> ParseFloat ops (Query (URLQuery r) ''amount'') = None"
  then show "status (convertHandler ops f r) = 400"
    and "fetched (convertHandler ops f r) = []"
    and "body (convertHandler ops f r) = PlainText ''amount must be a number''
             \<or> body (convertHandler ops f r)
                 = PlainText ''base and target query parameters are required''"
    using assms by (simp_all add: convertHandler_def Let_def)
next
  assume "Query (URLQuery r) ''amount'' \<noteq> []
          \<and> ParseFloat ops (Query (URLQuery r) ''amount'') = None"
    and "ToUpper ops (Query (URLQuery r) ''base'') \<noteq> []
             \<and> ToUpper ops (Query (URLQuery r) ''target'') \<noteq> []"
  then show "body (convertHandler ops f r) = PlainText ''amount must be a number''"
    using assms by (simp add: convertHandler_def Let_def)
next
  assume e: "Query (URLQuery r) ''amount'' = []"
  show "convertHandler ops f r
            = convertHandler ops f
                (r\<lparr>URLQuery := filter (\<lambda>p. fst p \<noteq> ''amount'') (URLQuery r)\<rparr>)"
    by (rule convertHandler_query [symmetric]) (simp_all add: Query_without e)
next
  assume e: "Query (URLQuery r) ''amount'' = []"
    and bt: "ToUpper ops (Query (URLQuery r) ''base'') \<noteq> []
             \<and> ToUpper ops (Query (URLQuery r) ''target'') \<noteq> []"
  show "fetched (convertHandler ops f r)
                     = [(ToUpper ops (Query (URLQuery r) ''base''),
                         ToUpper ops (Query (URLQuery r) ''target''))]"
    using assms e bt by (simp add: convertHandler_def Let_def split: sum.splits)
  show "status (convertHandler ops f r) \<noteq> 400"
    using assms e bt by (simp add: convertHandler_def Let_def split: sum.splits)
next
  fix rate
  assume e: "Query (URLQuery r) ''amount'' = []"
    and bt: "ToUpper ops (Query (URLQuery r) ''base'') \<noteq> []
             \<and> ToUpper ops (Query (URLQuery r) ''target'') \<noteq> []"
    and ok: "f (ToUpper ops (Query (URLQuery r) ''base''))
                              (ToUpper ops (Query (URLQuery r) ''target'')) = Inr rate
                           \<and> json_encodable ops rate \<and> json_encodable ops (fone ops)
                           \<and> json_encodable ops (fmul ops rate (fone ops))"
  show "convertHandler ops f r
                           = \<lparr>status = 200,
                              body = ConvertJSON
                                \<lparr>Base = ToUpper ops (Query (URLQuery r) ''base''),
                                 Target = ToUpper ops (Query (URLQuery r) ''target''),
                                 Amount = fone ops, Rate = rate,
                                 Converted = fmul ops rate (fone ops),
                                 Source = ''yahoo-finance''\<rparr>,
                              fetched = [(ToUpper ops (Query (URLQuery r) ''base''),
                                          ToUpper ops (Query (URLQuery r) ''target''))]\<rparr>"
    using assms e bt ok by (simp add: convertHandler_def Let_def)
qed

theorem unparseable_amount_rejected_witness:
  "Query [(''base'', ''USD''), (''target'', ''IDR''), (''amount'', ''abc'')] ''amount'' \<noteq> []
   \<and> ParseFloat int_float64
        (Query [(''base'', ''USD''), (''target'', ''IDR''), (''amount'', ''abc'')] ''amount'')
      = None
   \<and> convertHandler int_float64 (fixed_rate 15000)
        \<lparr>Method = ''GET'',
         URLQuery = [(''base'', ''USD''), (''target'', ''IDR''), (''amount'', ''abc'')]\<rparr>
      = \<lparr>status = 400, body = PlainText ''amount must be a number'', fetched = []\<rparr>
   \<and> Query [(''amount'', ''''), (''base'', ''usd''), (''target'', ''idr'')] ''amount'' = []
   \<and> convertHandler int_float64 (failing_fetcher TransportError)
        \<lparr>Method = ''GET'',
         URLQuery = [(''amount'', ''''), (''base'', ''usd''), (''target'', ''idr'')]\<rparr>
      = convertHandler int_float64 (failing_fetcher TransportError)
        \<lparr>Method = ''GET'', URLQuery = [(''base'', ''usd''), (''target'', ''idr'')]\<rparr>
   \<and> fetched (convertHandler int_float64 (failing_fetcher TransportError)
        \<lparr>Method = ''GET'',
         URLQuery = [(''amount'', ''''), (''base'', ''usd''), (''target'', ''idr'')]\<rparr>)
      = [(''USD'', ''IDR'')]"
proof -
  let ?r = "\<lparr>Method = ''GET'',
         URLQuery = [(''base'', ''USD''), (''target'', ''IDR''), (''amount'', ''abc'')]\<rparr>"
  let ?e = "\<lparr>Method = ''GET'',
         URLQuery = [(''amount'', ''''), (''base'', ''usd''), (''target'', ''idr'')]\<rparr>"
  have m: "Method ?r = ''GET''" and m': "Method ?e = ''GET''" by simp_all
  have a: "Query (URLQuery ?r) ''amount'' \<noteq> []" by (simp add: Query_def)
  have p: "ParseFloat int_float64 (Query (URLQuery ?r) ''amount'') = None"
    by (simp add: Query_def int_float64_def decimal_integer_def is_digit_def)
  have bt: "ToUpper int_float64 (Query (URLQuery ?r) ''base'') \<noteq> []
        \<and> ToUpper int_float64 (Query (URLQuery ?r) ''target'') \<noteq> []"
    by (simp add: Query_def int_float64_def)
  have e: "Query (URLQuery ?e) ''amount'' = []" by (simp add: Query_def)
  have u: "ToUpper int_float64 (Query (URLQuery ?e) ''base'') = ''USD''"
    "ToUpper int_float64 (Query (URLQuery ?e) ''target'') = ''IDR''"
    by (simp_all add: Query_def int_float64_def upper_char_def)
  from unparseable_amount_rejected [OF m, of int_float64 "fixed_rate 15000"] a p bt
  have "status (convertHandler int_float64 (fixed_rate 15000) ?r) = 400"
    and "fetched (convertHandler int_float64 (fixed_rate 15000) ?r) = []"
    and "body (convertHandler int_float64 (fixed_rate 15000) ?r)
           = PlainText ''amount must be a number''"
    by blast+
  then have r: "convertHandler int_float64 (fixed_rate 15000) ?r
      = \<lparr>status = 400, body = PlainText ''amount must be a number'', fetched = []\<rparr>"
    by (cases "convertHandler int_float64 (fixed_rate 15000) ?r") simp
  have bt': "ToUpper int_float64 (Query (URLQuery ?e) ''base'') \<noteq> []
        \<and> ToUpper int_float64 (Query (URLQuery ?e) ''target'') \<noteq> []"
    using u by simp
  from unparseable_amount_rejected [OF m', of int_float64 "failing_fetcher TransportError"] e bt'
  have q: "convertHandler int_float64 (failing_fetcher TransportError) ?e
      = convertHandler int_float64 (failing_fetcher TransportError)
          (?e\<lparr>URLQuery := filter (\<lambda>p. fst p \<noteq> ''amount'') (URLQuery ?e)\<rparr>)"
    and g: "fetched (convertHandler int_float64 (failing_fetcher TransportError) ?e)
      = [(ToUpper int_float64 (Query (URLQuery ?e) ''base''),
          ToUpper int_float64 (Query (URLQuery ?e) ''target''))]"
    by blast+
  have q': "convertHandler int_float64 (failing_fetcher TransportError) ?e
      = convertHandler int_float64 (failing_fetcher TransportError)
          \<lparr>Method = ''GET'', URLQuery = [(''base'', ''usd''), (''target'', ''idr'')]\<rparr>"
    by (rule trans [OF q]) simp
  have g': "fetched (convertHandler int_float64 (failing_fetcher TransportError) ?e)
      = [(''USD'', ''IDR'')]"
    using u by (simp add: g)
  have a': "Query [(''base'', ''USD''), (''target'', ''IDR''), (''amount'', ''abc'')] ''amount''
      \<noteq> []"
    using a by simp
  have p': "ParseFloat int_float64
        (Query [(''base'', ''USD''), (''target'', ''IDR''), (''amount'', ''abc'')] ''amount'')
      = None"
    using p by simp
  have e': "Query [(''amount'', ''''), (''base'', ''usd''), (''target'', ''idr'')] ''amount'' = []"
    using e by simp
  from a' p' r e' q' g' show ?thesis by (intro conjI)
qed

text \<open>
  Claim C7 as stated fails for an amount parameter that is present and empty: the empty
  string is not a number, yet the handler takes the default amount, calls the fetcher
  and answers with status 200.
\<close>

theorem empty_amount_not_rejected:
  "map_of [(''base'', ''USD''), (''target'', ''IDR''), (''amount'', '''')] ''amount'' = Some []
   \<and> ParseFloat int_float64
        (Query [(''base'', ''USD''), (''target'', ''IDR''), (''amount'', '''')] ''amount'')
      = None
   \<and> convertHandler int_float64 (fixed_rate 15000)
        \<lparr>Method = ''GET'',
         URLQuery = [(''base'', ''USD''), (''target'', ''IDR''), (''amount'', '''')]\<rparr>
      = \<lparr>status = 200,
         body = ConvertJSON \<lparr>Base = ''USD'', Target = ''IDR'', Amount = 1, Rate = 15000,
                             Converted = 15000, Source = ''yahoo-finance''\<rparr>,
         fetched = [(''USD'', ''IDR'')]\<rparr>"
  by (simp add: convert_simps fixed_rate_def)

text \<open>
  Claim C10.  In every successful response (status 200 with a JSON body) the rate is
  the fetcher's result for the upper-cased base and target, and \<open>converted\<close> is the
  \<open>float64\<close> product \<open>rate * amount\<close>; the amount is the parsed parameter, and 1 when
  the parameter is absent, so that \<open>converted\<close> is \<open>rate * 1\<close>, which is the rate by
  the unit law of the \<open>float64\<close> product.  A request with base and target, a usable
  amount and a rate that encodes is successful.
\<close>

theorem converted_is_rate_times_amount:
  "(convertHandler ops f r = \<lparr>status = 200, body = ConvertJSON resp, fetched = calls\<rparr>
      \<longrightarrow> Base resp = ToUpper ops (Query (URLQuery r) ''base'')
        \<and> Target resp = ToUpper ops (Query (URLQuery r) ''target'')
        \<and> f (Base resp) (Target resp) = Inr (Rate resp)
        \<and> Converted resp = fmul ops (Rate resp) (Amount resp)
        \<and> (Query (URLQuery r) ''amount'' \<noteq> []
             \<longrightarrow> ParseFloat ops (Query (URLQuery r) ''amount'') = Some (Amount resp))
        \<and> (Query (URLQuery r) ''amount'' = []
             \<longrightarrow> Amount resp = fone ops
               \<and> Converted resp = fmul ops (Rate resp) (fone ops)
               \<and> ((\<forall>x. fmul ops x (fone ops) = x) \<longrightarrow> Converted resp = Rate resp)))
   \<and> (Method r = ''GET''
        \<and> ToUpper ops (Query (URLQuery r) ''base'') \<noteq> []
        \<and> ToUpper ops (Query (URLQuery r) ''target'') \<noteq> []
        \<and> Query (URLQuery r) ''amount'' = []
        \<and> f (ToUpper ops (Query (URLQuery r) ''base'')) (ToUpper ops (Query (URLQuery r) ''target''))
            = Inr rate
        \<and> json_encodable ops rate \<and> json_encodable ops (fone ops)
        \<and> json_encodable ops (fmul ops rate (fone ops))
      \<longrightarrow> status (convertHandler ops f r) = 200
        \<and> body (convertHandler ops f r)
            = ConvertJSON \<lparr>Base = ToUpper ops (Query (URLQuery r) ''base''),
                           Target = ToUpper ops (Query (URLQuery r) ''target''),
                           Amount = fone ops, Rate = rate,
                           Converted = fmul ops rate (fone ops),
                           Source = ''yahoo-finance''\<rparr>)"
proof -
  have a: "convertHandler ops f r = \<lparr>status = 200, body = ConvertJSON resp, fetched = calls\<rparr>
      \<longrightarrow> Base resp = ToUpper ops (Query (URLQuery r) ''base'')
        \<and> Target resp = ToUpper ops (Query (URLQuery r) ''target'')
        \<and> f (Base resp) (Target resp) = Inr (Rate resp)
        \<and> Converted resp = fmul ops (Rate resp) (Amount resp)
        \<and> (Query (URLQuery r) ''amount'' \<noteq> []
             \<longrightarrow> ParseFloat ops (Query (URLQuery r) ''amount'') = Some (Amount resp))
        \<and> (Query (URLQuery r) ''amount'' = []
             \<longrightarrow> Amount resp = fone ops
               \<and> Converted resp = fmul ops (Rate resp) (fone ops)
               \<and> ((\<forall>x. fmul ops x (fone ops) = x) \<longrightarrow> Converted resp = Rate resp))"
    by (auto simp add: convertHandler_def Let_def split: if_splits option.splits sum.splits)
  have b: "Method r = ''GET''
        \<and> ToUpper ops (Query (URLQuery r) ''base'') \<noteq> []
        \<and> ToUpper ops (Query (URLQuery r) ''target'') \<noteq> []
        \<and> Query (URLQuery r) ''amount'' = []
        \<and> f (ToUpper ops (Query (URLQuery r) ''base'')) (ToUpper ops (Query (URLQuery r) ''target''))
            = Inr rate
        \<and> json_encodable ops rate \<and> json_encodable ops (fone ops)
        \<and> json_encodable ops (fmul ops rate (fone ops))
      \<longrightarrow> status (convertHandler ops f r) = 200
        \<and> body (convertHandler ops f r)
            = ConvertJSON \<lparr>Base = ToUpper ops (Query (URLQuery r) ''base''),
                           Target = ToUpper ops (Query (URLQuery r) ''target''),
                           Amount = fone ops, Rate = rate,
                           Converted = fmul ops rate (fone ops),
                           Source = ''yahoo-finance''\<rparr>"
    by (simp add: convertHandler_def Let_def)
  from a b show ?thesis by blast
qed

theorem converted_is_rate_times_amount_witness:
  "convertHandler int_float64 (fixed_rate 15000)
     \<lparr>Method = ''GET'', URLQuery = [(''base'', ''USD''), (''target'', ''IDR''), (''amount'', ''2'')]\<rparr>
     = \<lparr>status = 200,
        body = ConvertJSON \<lparr>Base = ''USD'', Target = ''IDR'', Amount = 2, Rate = 15000,
                            Converted = 30000, Source = ''yahoo-finance''\<rparr>,
        fetched = [(''USD'', ''IDR'')]\<rparr>
   \<and> fmul int_float64 15000 2 = 30000
   \<and> convertHandler int_float64 (fixed_rate 15000)
     \<lparr>Method = ''GET'', URLQuery = [(''base'', ''USD''), (''target'', ''IDR'')]\<rparr>
     = \<lparr>status = 200,
        body = ConvertJSON \<lparr>Base = ''USD'', Target = ''IDR'', Amount = 1, Rate = 15000,
                            Converted = 15000, Source = ''yahoo-finance''\<rparr>,
        fetched = [(''USD'', ''IDR'')]\<rparr>"
proof -
  have a: "convertHandler int_float64 (fixed_rate 15000)
     \<lparr>Method = ''GET'', URLQuery = [(''base'', ''USD''), (''target'', ''IDR''), (''amount'', ''2'')]\<rparr>
     = \<lparr>status = 200,
        body = ConvertJSON \<lparr>Base = ''USD'', Target = ''IDR'', Amount = 2, Rate = 15000,
                            Converted = 30000, Source = ''yahoo-finance''\<rparr>,
        fetched = [(''USD'', ''IDR'')]\<rparr>"
    by (simp add: convert_simps fixed_rate_def)
  have b: "convertHandler int_float64 (fixed_rate 15000)
     \<lparr>Method = ''GET'', URLQuery = [(''base'', ''USD''), (''target'', ''IDR'')]\<rparr>
     = \<lparr>status = 200,
        body = ConvertJSON \<lparr>Base = ''USD'', Target = ''IDR'', Amount = 1, Rate = 15000,
                            Converted = 15000, Source = ''yahoo-finance''\<rparr>,
        fetched = [(''USD'', ''IDR'')]\<rparr>"
    by (simp add: convert_simps fixed_rate_def)
  have u: "\<forall>x. fmul int_float64 x (fone int_float64) = x" by (simp add: int_float64_def)
  show ?thesis
    using a b u
      converted_is_rate_times_amount [where ops = int_float64 and f = "fixed_rate 15000"
        and r = "\<lparr>Method = ''GET'', URLQuery = [(''base'', ''USD''), (''target'', ''IDR''), (''amount'', ''2'')]\<rparr>"
        and resp = "\<lparr>Base = ''USD'', Target = ''IDR'', Amount = 2, Rate = 15000,
                            Converted = 30000, Source = ''yahoo-finance''\<rparr>"
        and calls = "[(''USD'', ''IDR'')]" and rate = 15000]
      converted_is_rate_times_amount [where ops = int_float64 and f = "fixed_rate 15000"
        and r = "\<lparr>Method = ''GET'', URLQuery = [(''base'', ''USD''), (''target'', ''IDR'')]\<rparr>"
        and resp = "\<lparr>Base = ''USD'', Target = ''IDR'', Amount = 1, Rate = 15000,
                            Converted = 15000, Source = ''yahoo-finance''\<rparr>"
        and calls = "[(''USD'', ''IDR'')]" and rate = 15000]
    by (simp add: int_float64_def)
qed

section \<open>Properties of deleting and of the partial updates\<close>

lemma find_map_key:
  assumes "\<And>x. key (f x) = key x"
  shows "find (\<lambda>x. key x = i) (map f xs) = map_option f (find (\<lambda>x. key x = i) xs)"
  using assms by (induction xs) simp_all

lemma find_Some_if_filter: "filter P xs \<noteq> [] \<Longrightarrow> \<exists>y. find P xs = Some y"
  by (induction xs) (auto split: if_splits)

lemma find_key: "find (\<lambda>x. key x = i) xs = Some y \<Longrightarrow> key y = i"
  by (induction xs) (auto split: if_splits)

lemma find_place_update_places:
  "find_place (fst (update_places now name category city description setVisited visitedAt i db)) j
   = map_option
       (\<lambda>p. if places_id p = i
             then p\<lparr>places_name := COALESCE name (places_name p),
                    places_category := COALESCE category (places_category p),
                    places_city := COALESCE city (places_city p),
                    places_description := COALESCE description (places_description p),
                    places_visited_at := (if setVisited then visitedAt else places_visited_at p),
                    places_updated_at := now\<rparr>
             else p)
       (find_place db j)"
  unfolding find_place_def update_places_def
  by (simp add: find_map_key [where key = places_id])

lemma find_country_update_countries:
  "find_country (fst (update_countries now name description i db)) j
   = map_option
       (\<lambda>c. if countries_id c = i
             then c\<lparr>countries_name := COALESCE name (countries_name c),
                    countries_description := COALESCE description (countries_description c),
                    countries_updated_at := now\<rparr>
             else c)
       (find_country db j)"
  unfolding find_country_def update_countries_def
  by (simp add: find_map_key [where key = countries_id])

lemma update_places_frame:
  assumes "find_place db j = Some p"
  shows "\<exists>p'. find_place (fst (update_places now name category city description sv va i db)) j
               = Some p'
     \<and> places_id p' = places_id p \<and> places_country_id p' = places_country_id p
     \<and> places_created_at p' = places_created_at p
     \<and> (name = None \<longrightarrow> places_name p' = places_name p)
     \<and> (category = None \<longrightarrow> places_category p' = places_category p)
     \<and> (city = None \<longrightarrow> places_city p' = places_city p)
     \<and> (description = None \<longrightarrow> places_description p' = places_description p)
     \<and> (\<not> sv \<longrightarrow> places_visited_at p' = places_visited_at p)"
  by (simp add: find_place_update_places assms COALESCE_def)

lemma update_places_write:
  assumes "find_place db i = Some p"
  shows "\<exists>p'. find_place (fst (update_places now name category city description sv va i db)) i
               = Some p'
     \<and> (\<forall>s. name = Some s \<longrightarrow> places_name p' = s)
     \<and> (\<forall>s. category = Some s \<longrightarrow> places_category p' = s)
     \<and> (\<forall>s. city = Some s \<longrightarrow> places_city p' = s)
     \<and> (\<forall>s. description = Some s \<longrightarrow> places_description p' = s)
     \<and> (sv \<longrightarrow> places_visited_at p' = va)
     \<and> places_updated_at p' = now"
proof -
  have "places_id p = i" using assms unfolding find_place_def by (rule find_key)
  then show ?thesis by (simp add: find_place_update_places assms COALESCE_def)
qed

lemma execUpdatePlace_db_after:
  "db_after (execUpdatePlace now fault db i name category city description sv va) = db
   \<or> db_after (execUpdatePlace now fault db i name category city description sv va)
       = fst (update_places now name category city description sv va i db)"
  by (simp add: execUpdatePlace_def split: prod.splits option.splits sum.splits)

lemma execUpdatePlace_200:
  assumes "resp_status (execUpdatePlace now fault db i name category city description sv va) = 200"
  shows "(\<exists>p. find_place db i = Some p)
     \<and> db_after (execUpdatePlace now fault db i name category city description sv va)
         = fst (update_places now name category city description sv va i db)"
proof -
  have "filter (\<lambda>p. places_id p = i) (places db) \<noteq> []"
    using assms
    by (auto simp add: execUpdatePlace_def update_places_def
             split: if_splits option.splits sum.splits)
  then have "\<exists>p. find_place db i = Some p"
    unfolding find_place_def by (rule find_Some_if_filter)
  moreover have "db_after (execUpdatePlace now fault db i name category city description sv va)
         = fst (update_places now name category city description sv va i db)"
    using assms
    by (simp add: execUpdatePlace_def split: if_splits prod.splits option.splits sum.splits)
  ultimately show ?thesis by blast
qed

lemma fetchCountry_no_fault: "\<exists>r. fetchCountry None call db i = Inr r"
  by (simp add: fetchCountry_def split: option.splits)

lemma execUpdatePlace_succeeds:
  assumes "find_place db i = Some p"
  shows "resp_status (execUpdatePlace now None db i name category city description sv va) = 200"
proof -
  define db' where "db' = fst (update_places now name category city description sv va i db)"
  let ?n = "length (filter (\<lambda>p. places_id p = i) (places db))"
  have eq: "update_places now name category city description sv va i db = (db', ?n)"
    by (simp add: db'_def update_places_def)
  obtain p' where p': "find_place db' i = Some p'"
    using update_places_write [OF assms, of now name category city description sv va]
    unfolding db'_def by (elim exE conjE)
  obtain r where r: "fetchCountry None 2 db' (places_country_id p') = Inr r"
    using fetchCountry_no_fault [of 2 db' "places_country_id p'"] by (elim exE)
  have "find (\<lambda>p. places_id p = i) (places db) \<noteq> None"
    using assms by (simp add: find_place_def)
  then have n: "?n \<noteq> 0" by (auto simp add: find_None_iff filter_empty_conv)
  show ?thesis
    using n by (simp add: execUpdatePlace_def eq p' r)
qed

lemma bindString_kept:
  assumes "bindString (field_values members field) = Some x"
    and "field_state members field = None \<or> field_state members field = Some JNull"
  shows "x = None"
  using assms
  by (auto simp add: bindString_def field_state_def split: if_splits list.splits)

lemma bindString_string:
  assumes "bindString (field_values members field) = Some x"
    and "field_state members field = Some (JString s)"
  shows "x = Some s"
  using assms
  by (auto simp add: bindString_def field_state_def split: if_splits list.splits)

lemma bindString_Some_state:
  assumes "bindString (field_values members field) = Some (Some s)"
  shows "field_state members field = Some (JString s)"
  using assms
  by (auto simp add: bindString_def field_state_def
           split: if_splits list.splits json_value.splits)

lemma bindString_binds:
  "JOther \<notin> set (field_values members field)
   \<Longrightarrow> \<exists>x. bindString (field_values members field) = Some x"
  by (simp add: bindString_def)


lemma execUpdatePlace_not_400:
  "resp_status (execUpdatePlace now fault db i name category city description sv va) \<noteq> 400"
  by (simp add: execUpdatePlace_def split: prod.splits option.splits sum.splits)

lemma execUpdatePlace_frame:
  assumes p: "find_place db j = Some p"
  shows "\<exists>p'. find_place
                 (db_after (execUpdatePlace now fault db i name category city description sv va)) j
               = Some p'
     \<and> places_id p' = places_id p \<and> places_country_id p' = places_country_id p
     \<and> places_created_at p' = places_created_at p
     \<and> (name = None \<longrightarrow> places_name p' = places_name p)
     \<and> (category = None \<longrightarrow> places_category p' = places_category p)
     \<and> (city = None \<longrightarrow> places_city p' = places_city p)
     \<and> (description = None \<longrightarrow> places_description p' = places_description p)
     \<and> (\<not> sv \<longrightarrow> places_visited_at p' = places_visited_at p)"
  using execUpdatePlace_db_after [of now fault db i name category city description sv va]
proof
  assume "db_after (execUpdatePlace now fault db i name category city description sv va) = db"
  then show ?thesis using p by simp
next
  assume "db_after (execUpdatePlace now fault db i name category city description sv va)
          = fst (update_places now name category city description sv va i db)"
  then show ?thesis
    using update_places_frame [OF p, of now name category city description sv va i] by simp
qed

lemma updatePlace_cases:
  obtains (rejected) "resp_status (updatePlace now fault db idParam request) = 400"
      "db_after (updatePlace now fault db idParam request) = db"
  | (executed) placeID inN inC inT inD inV sv va where
      "parseIDParam idParam = Some placeID"
      "bindPlaceInput request = Some (inN, inC, inT, inD, inV)"
      "resolveVisitedAt inV = Some (sv, va)"
      "updatePlace now fault db idParam request
       = execUpdatePlace now fault db placeID (map_option TrimSpace inN)
           (map_option TrimSpace inC) (map_option TrimSpace inT) (map_option TrimSpace inD)
           sv va"
proof (cases "parseIDParam idParam")
  case None
  then show ?thesis using rejected by (simp add: updatePlace_def)
next
  case i: (Some placeID)
  show ?thesis
  proof (cases "bindPlaceInput request")
    case None
    then show ?thesis using rejected i by (simp add: updatePlace_def)
  next
    case (Some input)
    obtain inN inC inT inD inV where input: "input = (inN, inC, inT, inD, inV)"
      by (cases input) auto
    show ?thesis
    proof (cases "resolveVisitedAt inV")
      case None
      then show ?thesis using rejected i Some input by (simp add: updatePlace_def)
    next
      case rv: (Some sva)
      obtain sv va where sva: "sva = (sv, va)" by (cases sva) auto
      show ?thesis
        using executed [of placeID inN inC inT inD inV sv va] i Some input rv sva
        by (simp add: updatePlace_def)
    qed
  qed
qed

lemma updatePlace_rejected_unchanged:
  assumes "resp_status (updatePlace now fault db idParam request) = 400"
  shows "db_after (updatePlace now fault db idParam request) = db"
  using updatePlace_cases [of now fault db idParam request]
proof cases
  case rejected
  then show ?thesis by simp
next
  case (executed placeID inN inC inT inD inV sv va)
  then show ?thesis using assms execUpdatePlace_not_400 by simp
qed

lemma bindPlaceInput_Object:
  assumes "bindPlaceInput (Object members) = Some (inN, inC, inT, inD, inV)"
  shows "bindString (field_values members ''name'') = Some inN
     \<and> bindString (field_values members ''category'') = Some inC
     \<and> bindString (field_values members ''city'') = Some inT
     \<and> bindString (field_values members ''description'') = Some inD
     \<and> bindString (field_values members ''visited_at'') = Some inV"
  using assms by (simp add: bindPlaceInput_def split: option.splits)

lemma resolveVisitedAt_None: "resolveVisitedAt None = Some (sv, va) \<Longrightarrow> \<not> sv"
  by (simp add: resolveVisitedAt_def)

lemma resolveVisitedAt_Some:
  "resolveVisitedAt (Some s) = Some (sv, va)
   \<Longrightarrow> sv \<and> va = (if s = [] then None else parse_date s)
       \<and> (s \<noteq> [] \<longrightarrow> (\<exists>t. parse_date s = Some t))"
  by (cases "parse_date s") (auto simp add: resolveVisitedAt_def split: if_splits)

text \<open>The frame of a place update: whatever the outcome, a stored place keeps every
  field that no key of the request names, and every field whose last member is null.\<close>

lemma updatePlace_frame:
  assumes p: "find_place db j = Some p"
  shows "\<exists>p'. find_place (db_after (updatePlace now fault db idParam (Object members))) j
               = Some p'
     \<and> places_id p' = places_id p \<and> places_country_id p' = places_country_id p
     \<and> places_created_at p' = places_created_at p
     \<and> (field_state members ''name'' = None \<or> field_state members ''name'' = Some JNull
          \<longrightarrow> places_name p' = places_name p)
     \<and> (field_state members ''category'' = None \<or> field_state members ''category'' = Some JNull
          \<longrightarrow> places_category p' = places_category p)
     \<and> (field_state members ''city'' = None \<or> field_state members ''city'' = Some JNull
          \<longrightarrow> places_city p' = places_city p)
     \<and> (field_state members ''description'' = None
          \<or> field_state members ''description'' = Some JNull
          \<longrightarrow> places_description p' = places_description p)
     \<and> (field_state members ''visited_at'' = None
          \<or> field_state members ''visited_at'' = Some JNull
          \<longrightarrow> places_visited_at p' = places_visited_at p)"
    (is "\<exists>p'. ?Q p'")
  using updatePlace_cases [of now fault db idParam "Object members"]
proof cases
  case rejected
  then have "?Q p" using p by simp
  then show ?thesis ..
next
  case (executed placeID inN inC inT inD inV sv va)
  note b = bindPlaceInput_Object [OF executed(2)]
  from execUpdatePlace_frame [OF p, of now fault placeID "map_option TrimSpace inN"
           "map_option TrimSpace inC" "map_option TrimSpace inT" "map_option TrimSpace inD"
           sv va]
  obtain p' where p': "find_place (db_after (execUpdatePlace now fault db placeID
           (map_option TrimSpace inN) (map_option TrimSpace inC) (map_option TrimSpace inT)
           (map_option TrimSpace inD) sv va)) j = Some p'"
    and k: "places_id p' = places_id p" "places_country_id p' = places_country_id p"
      "places_created_at p' = places_created_at p"
    and n: "map_option TrimSpace inN = None \<longrightarrow> places_name p' = places_name p"
    and c: "map_option TrimSpace inC = None \<longrightarrow> places_category p' = places_category p"
    and t: "map_option TrimSpace inT = None \<longrightarrow> places_city p' = places_city p"
    and d: "map_option TrimSpace inD = None \<longrightarrow> places_description p' = places_description p"
    and v: "\<not> sv \<longrightarrow> places_visited_at p' = places_visited_at p"
    by (elim exE conjE)
  have n': "field_state members ''name'' = None \<or> field_state members ''name'' = Some JNull
          \<longrightarrow> places_name p' = places_name p"
    using n b bindString_kept [of members "''name''" inN] by auto
  have c': "field_state members ''category'' = None
          \<or> field_state members ''category'' = Some JNull
          \<longrightarrow> places_category p' = places_category p"
    using c b bindString_kept [of members "''category''" inC] by auto
  have t': "field_state members ''city'' = None \<or> field_state members ''city'' = Some JNull
          \<longrightarrow> places_city p' = places_city p"
    using t b bindString_kept [of members "''city''" inT] by auto
  have d': "field_state members ''description'' = None
          \<or> field_state members ''description'' = Some JNull
          \<longrightarrow> places_description p' = places_description p"
    using d b bindString_kept [of members "''description''" inD] by auto
  have v': "field_state members ''visited_at'' = None
          \<or> field_state members ''visited_at'' = Some JNull
          \<longrightarrow> places_visited_at p' = places_visited_at p"
    using v b bindString_kept [of members "''visited_at''" inV] executed(3)
      resolveVisitedAt_None [of sv va] by auto
  have "?Q p'" using p' k n' c' t' d' v' executed(4) by simp
  then show ?thesis ..
qed

text \<open>An accepted place update stores every field whose last member is a string: the
  trimmed text, and for \<open>visited_at\<close> the parsed date, or no date for the empty
  string.\<close>

lemma updatePlace_overwrites:
  assumes ok: "resp_status (updatePlace now fault db idParam (Object members)) = 200"
  shows "\<exists>placeID p p'. parseIDParam idParam = Some placeID
     \<and> find_place db placeID = Some p
     \<and> find_place (db_after (updatePlace now fault db idParam (Object members))) placeID
         = Some p'
     \<and> (\<forall>s. field_state members ''name'' = Some (JString s)
            \<longrightarrow> places_name p' = TrimSpace s)
     \<and> (\<forall>s. field_state members ''category'' = Some (JString s)
            \<longrightarrow> places_category p' = TrimSpace s)
     \<and> (\<forall>s. field_state members ''city'' = Some (JString s)
            \<longrightarrow> places_city p' = TrimSpace s)
     \<and> (\<forall>s. field_state members ''description'' = Some (JString s)
            \<longrightarrow> places_description p' = TrimSpace s)
     \<and> (\<forall>s. field_state members ''visited_at'' = Some (JString s) \<longrightarrow>
            places_visited_at p' = (if s = [] then None else parse_date s)
            \<and> (s \<noteq> [] \<longrightarrow> (\<exists>t. parse_date s = Some t)))
     \<and> places_updated_at p' = now"
  using updatePlace_cases [of now fault db idParam "Object members"]
proof cases
  case rejected
  then show ?thesis using ok by simp
next
  case (executed placeID inN inC inT inD inV sv va)
  let ?res = "updatePlace now fault db idParam (Object members)"
  note b = bindPlaceInput_Object [OF executed(2)]
  from execUpdatePlace_200 [of now fault db placeID "map_option TrimSpace inN"
             "map_option TrimSpace inC" "map_option TrimSpace inT" "map_option TrimSpace inD"
             sv va] ok executed(4)
  obtain p where p: "find_place db placeID = Some p"
    and da: "db_after ?res = fst (update_places now (map_option TrimSpace inN)
             (map_option TrimSpace inC) (map_option TrimSpace inT) (map_option TrimSpace inD)
             sv va placeID db)"
    by auto
  from update_places_write [OF p, of now "map_option TrimSpace inN"
             "map_option TrimSpace inC" "map_option TrimSpace inT" "map_option TrimSpace inD"
             sv va]
  obtain p' where p': "find_place (db_after ?res) placeID = Some p'"
    and n: "\<forall>s. map_option TrimSpace inN = Some s \<longrightarrow> places_name p' = s"
    and c: "\<forall>s. map_option TrimSpace inC = Some s \<longrightarrow> places_category p' = s"
    and t: "\<forall>s. map_option TrimSpace inT = Some s \<longrightarrow> places_city p' = s"
    and d: "\<forall>s. map_option TrimSpace inD = Some s \<longrightarrow> places_description p' = s"
    and v: "sv \<longrightarrow> places_visited_at p' = va"
    and w: "places_updated_at p' = now"
    unfolding da by (elim exE conjE)
  have n': "\<forall>s. field_state members ''name'' = Some (JString s)
            \<longrightarrow> places_name p' = TrimSpace s"
    using n b bindString_string [of members "''name''" inN] by auto
  have c': "\<forall>s. field_state members ''category'' = Some (JString s)
            \<longrightarrow> places_category p' = TrimSpace s"
    using c b bindString_string [of members "''category''" inC] by auto
  have t': "\<forall>s. field_state members ''city'' = Some (JString s)
            \<longrightarrow> places_city p' = TrimSpace s"
    using t b bindString_string [of members "''city''" inT] by auto
  have d': "\<forall>s. field_state members ''description'' = Some (JString s)
            \<longrightarrow> places_description p' = TrimSpace s"
    using d b bindString_string [of members "''description''" inD] by auto
  have v': "\<forall>s. field_state members ''visited_at'' = Some (JString s) \<longrightarrow>
            places_visited_at p' = (if s = [] then None else parse_date s)
            \<and> (s \<noteq> [] \<longrightarrow> (\<exists>t. parse_date s = Some t))"
  proof (intro allI impI)
    fix s assume "field_state members ''visited_at'' = Some (JString s)"
    then have "inV = Some s" using b bindString_string [of members "''visited_at''" inV s] by simp
    then show "places_visited_at p' = (if s = [] then None else parse_date s)
            \<and> (s \<noteq> [] \<longrightarrow> (\<exists>t. parse_date s = Some t))"
      using resolveVisitedAt_Some [of s sv va] executed(3) v by simp
  qed
  from executed(1) p p' n' c' t' d' v' w show ?thesis by blast
qed

lemma updatePlace_unfold:
  assumes "parseIDParam idParam = Some placeID"
    and "bindPlaceInput request = Some (inN, inC, inT, inD, inV)"
    and "resolveVisitedAt inV = Some (sv, va)"
  shows "updatePlace now fault db idParam request
         = execUpdatePlace now fault db placeID (map_option TrimSpace inN)
             (map_option TrimSpace inC) (map_option TrimSpace inT) (map_option TrimSpace inD)
             sv va"
  using assms by (simp add: updatePlace_def)

lemma updatePlace_succeeds:
  assumes "parseIDParam idParam = Some placeID" and "find_place db placeID = Some p"
    and "JOther \<notin> set (field_values members ''name'')"
    and "JOther \<notin> set (field_values members ''category'')"
    and "JOther \<notin> set (field_values members ''city'')"
    and "JOther \<notin> set (field_values members ''description'')"
    and "JOther \<notin> set (field_values members ''visited_at'')"
    and "\<forall>s. field_state members ''visited_at'' = Some (JString s)
             \<longrightarrow> s = [] \<or> parse_date s \<noteq> None"
  shows "resp_status (updatePlace now None db idParam (Object members)) = 200"
proof -
  obtain inN where n: "bindString (field_values members ''name'') = Some inN"
    using bindString_binds [OF assms(3)] by (elim exE)
  obtain inC where c: "bindString (field_values members ''category'') = Some inC"
    using bindString_binds [OF assms(4)] by (elim exE)
  obtain inT where t: "bindString (field_values members ''city'') = Some inT"
    using bindString_binds [OF assms(5)] by (elim exE)
  obtain inD where d: "bindString (field_values members ''description'') = Some inD"
    using bindString_binds [OF assms(6)] by (elim exE)
  obtain inV where v: "bindString (field_values members ''visited_at'') = Some inV"
    using bindString_binds [OF assms(7)] by (elim exE)
  have bi: "bindPlaceInput (Object members) = Some (inN, inC, inT, inD, inV)"
    by (simp add: bindPlaceInput_def n c t d v)
  have "\<exists>sva. resolveVisitedAt inV = Some sva"
  proof (cases inV)
    case None
    then show ?thesis by (auto simp add: resolveVisitedAt_def)
  next
    case (Some s)
    then have "field_state members ''visited_at'' = Some (JString s)"
      using v bindString_Some_state [of members "''visited_at''" s] by simp
    then have "s = [] \<or> parse_date s \<noteq> None" using assms(8) by simp
    then show ?thesis using Some by (auto simp add: resolveVisitedAt_def)
  qed
  then obtain sv va where rv: "resolveVisitedAt inV = Some (sv, va)" by auto
  show ?thesis
    unfolding updatePlace_unfold [OF assms(1) bi rv]
    by (rule execUpdatePlace_succeeds [OF assms(2)])
qed



lemma update_countries_frame:
  assumes "find_country db j = Some c"
  shows "\<exists>c'. find_country (fst (update_countries now name description i db)) j = Some c'
     \<and> countries_id c' = countries_id c \<and> countries_created_at c' = countries_created_at c
     \<and> (name = None \<longrightarrow> countries_name c' = countries_name c)
     \<and> (description = None \<longrightarrow> countries_description c' = countries_description c)"
  by (simp add: find_country_update_countries assms COALESCE_def)

lemma update_countries_write:
  assumes "find_country db i = Some c"
  shows "\<exists>c'. find_country (fst (update_countries now name description i db)) i = Some c'
     \<and> (\<forall>s. name = Some s \<longrightarrow> countries_name c' = s)
     \<and> (\<forall>s. description = Some s \<longrightarrow> countries_description c' = s)
     \<and> countries_updated_at c' = now"
proof -
  have "countries_id c = i" using assms unfolding find_country_def by (rule find_key)
  then show ?thesis by (simp add: find_country_update_countries assms COALESCE_def)
qed

lemma execUpdateCountry_db_after:
  "db_after (execUpdateCountry now fault db i name description) = db
   \<or> db_after (execUpdateCountry now fault db i name description)
       = fst (update_countries now name description i db)"
  by (simp add: execUpdateCountry_def split: prod.splits sum.splits)

lemma execUpdateCountry_200:
  assumes "resp_status (execUpdateCountry now fault db i name description) = 200"
  shows "(\<exists>c. find_country db i = Some c)
     \<and> db_after (execUpdateCountry now fault db i name description)
         = fst (update_countries now name description i db)"
proof -
  have "filter (\<lambda>c. countries_id c = i) (countries db) \<noteq> []"
    using assms
    by (auto simp add: execUpdateCountry_def update_countries_def split: if_splits sum.splits)
  then have "\<exists>c. find_country db i = Some c"
    unfolding find_country_def by (rule find_Some_if_filter)
  moreover have "db_after (execUpdateCountry now fault db i name description)
         = fst (update_countries now name description i db)"
    using assms
    by (simp add: execUpdateCountry_def split: if_splits prod.splits sum.splits)
  ultimately show ?thesis by blast
qed

lemma execUpdateCountry_succeeds:
  assumes "find_country db i = Some c"
  shows "resp_status (execUpdateCountry now None db i name description) = 200"
proof -
  define db' where "db' = fst (update_countries now name description i db)"
  let ?n = "length (filter (\<lambda>c. countries_id c = i) (countries db))"
  have eq: "update_countries now name description i db = (db', ?n)"
    by (simp add: db'_def update_countries_def)
  obtain r where r: "fetchCountry None (Suc 0) db' i = Inr r"
    using fetchCountry_no_fault [of "Suc 0" db' i] by (elim exE)
  have "find (\<lambda>c. countries_id c = i) (countries db) \<noteq> None"
    using assms by (simp add: find_country_def)
  then have n: "?n \<noteq> 0" by (auto simp add: find_None_iff filter_empty_conv)
  show ?thesis
    using n by (simp add: execUpdateCountry_def eq r)
qed

lemma country_name_param:
  "(case inN of None \<Rightarrow> None
    | Some s \<Rightarrow> (let trimmed = TrimSpace s in if trimmed \<noteq> [] then Some trimmed else Some []))
   = map_option TrimSpace inN"
  by (cases inN) (simp_all add: Let_def)

lemma execUpdateCountry_not_400:
  "resp_status (execUpdateCountry now fault db i name description) \<noteq> 400"
  by (simp add: execUpdateCountry_def split: prod.splits sum.splits)

lemma execUpdateCountry_frame:
  assumes c: "find_country db j = Some c"
  shows "\<exists>c'. find_country (db_after (execUpdateCountry now fault db i name description)) j
               = Some c'
     \<and> countries_id c' = countries_id c \<and> countries_created_at c' = countries_created_at c
     \<and> (name = None \<longrightarrow> countries_name c' = countries_name c)
     \<and> (description = None \<longrightarrow> countries_description c' = countries_description c)"
  using execUpdateCountry_db_after [of now fault db i name description]
proof
  assume "db_after (execUpdateCountry now fault db i name description) = db"
  then show ?thesis using c by simp
next
  assume "db_after (execUpdateCountry now fault db i name description)
          = fst (update_countries now name description i db)"
  then show ?thesis
    using update_countries_frame [OF c, of now name description i] by simp
qed

lemma updateCountry_unfold:
  assumes "parseIDParam idParam = Some i"
    and "bindCountryInput request = Some (inN, inD)"
  shows "updateCountry now fault db idParam request
         = execUpdateCountry now fault db i (map_option TrimSpace inN) (map_option TrimSpace inD)"
  using assms by (simp add: updateCountry_def country_name_param Let_def)

lemma updateCountry_cases:
  obtains (rejected) "resp_status (updateCountry now fault db idParam request) = 400"
      "db_after (updateCountry now fault db idParam request) = db"
  | (executed) i inN inD where
      "parseIDParam idParam = Some i"
      "bindCountryInput request = Some (inN, inD)"
      "updateCountry now fault db idParam request
       = execUpdateCountry now fault db i (map_option TrimSpace inN) (map_option TrimSpace inD)"
proof (cases "parseIDParam idParam")
  case None
  then show ?thesis using rejected by (simp add: updateCountry_def)
next
  case i: (Some i)
  show ?thesis
  proof (cases "bindCountryInput request")
    case None
    then show ?thesis using rejected i by (simp add: updateCountry_def)
  next
    case (Some input)
    obtain inN inD where input: "input = (inN, inD)" by (cases input) auto
    show ?thesis
      using executed [of i inN inD] i Some input updateCountry_unfold [of idParam i request inN inD]
      by simp
  qed
qed

lemma updateCountry_rejected_unchanged:
  assumes "resp_status (updateCountry now fault db idParam request) = 400"
  shows "db_after (updateCountry now fault db idParam request) = db"
  using updateCountry_cases [of now fault db idParam request]
proof cases
  case rejected
  then show ?thesis by simp
next
  case (executed i inN inD)
  then show ?thesis using assms execUpdateCountry_not_400 by simp
qed

lemma bindCountryInput_Object:
  assumes "bindCountryInput (Object members) = Some (inN, inD)"
  shows "bindString (field_values members ''name'') = Some inN
     \<and> bindString (field_values members ''description'') = Some inD"
  using assms by (simp add: bindCountryInput_def split: option.splits)

text \<open>The frame of a country update.\<close>

lemma updateCountry_frame:
  assumes c: "find_country db j = Some c"
  shows "\<exists>c'. find_country (db_after (updateCountry now fault db idParam (Object members))) j
               = Some c'
     \<and> countries_id c' = countries_id c \<and> countries_created_at c' = countries_created_at c
     \<and> (field_state members ''name'' = None \<or> field_state members ''name'' = Some JNull
          \<longrightarrow> countries_name c' = countries_name c)
     \<and> (field_state members ''description'' = None
          \<or> field_state members ''description'' = Some JNull
          \<longrightarrow> countries_description c' = countries_description c)"
    (is "\<exists>c'. ?Q c'")
  using updateCountry_cases [of now fault db idParam "Object members"]
proof cases
  case rejected
  then have "?Q c" using c by simp
  then show ?thesis ..
next
  case (executed i inN inD)
  note b = bindCountryInput_Object [OF executed(2)]
  from execUpdateCountry_frame [OF c, of now fault i "map_option TrimSpace inN"
        "map_option TrimSpace inD"]
  obtain c' where c': "find_country (db_after (execUpdateCountry now fault db i
          (map_option TrimSpace inN) (map_option TrimSpace inD))) j = Some c'"
    and k: "countries_id c' = countries_id c" "countries_created_at c' = countries_created_at c"
    and n: "map_option TrimSpace inN = None \<longrightarrow> countries_name c' = countries_name c"
    and d: "map_option TrimSpace inD = None
            \<longrightarrow> countries_description c' = countries_description c"
    by (elim exE conjE)
  have n': "field_state members ''name'' = None \<or> field_state members ''name'' = Some JNull
          \<longrightarrow> countries_name c' = countries_name c"
    using n b bindString_kept [of members "''name''" inN] by auto
  have d': "field_state members ''description'' = None
          \<or> field_state members ''description'' = Some JNull
          \<longrightarrow> countries_description c' = countries_description c"
    using d b bindString_kept [of members "''description''" inD] by auto
  have "?Q c'" using c' k n' d' executed(3) by simp
  then show ?thesis ..
qed

lemma updateCountry_overwrites:
  assumes ok: "resp_status (updateCountry now fault db idParam (Object members)) = 200"
  shows "\<exists>i c c'. parseIDParam idParam = Some i
     \<and> find_country db i = Some c
     \<and> find_country (db_after (updateCountry now fault db idParam (Object members))) i = Some c'
     \<and> (\<forall>s. field_state members ''name'' = Some (JString s)
            \<longrightarrow> countries_name c' = TrimSpace s)
     \<and> (\<forall>s. field_state members ''description'' = Some (JString s)
            \<longrightarrow> countries_description c' = TrimSpace s)
     \<and> countries_updated_at c' = now"
  using updateCountry_cases [of now fault db idParam "Object members"]
proof cases
  case rejected
  then show ?thesis using ok by simp
next
  case (executed i inN inD)
  let ?res = "updateCountry now fault db idParam (Object members)"
  note b = bindCountryInput_Object [OF executed(2)]
  from execUpdateCountry_200 [of now fault db i "map_option TrimSpace inN"
        "map_option TrimSpace inD"] ok executed(3)
  obtain c where c: "find_country db i = Some c"
    and da: "db_after ?res = fst (update_countries now (map_option TrimSpace inN)
                 (map_option TrimSpace inD) i db)"
    by auto
  from update_countries_write [OF c, of now "map_option TrimSpace inN" "map_option TrimSpace inD"]
  obtain c' where c': "find_country (db_after ?res) i = Some c'"
    and n: "\<forall>s. map_option TrimSpace inN = Some s \<longrightarrow> countries_name c' = s"
    and d: "\<forall>s. map_option TrimSpace inD = Some s \<longrightarrow> countries_description c' = s"
    and w: "countries_updated_at c' = now"
    unfolding da by (elim exE conjE)
  have n': "\<forall>s. field_state members ''name'' = Some (JString s)
            \<longrightarrow> countries_name c' = TrimSpace s"
    using n b bindString_string [of members "''name''" inN] by auto
  have d': "\<forall>s. field_state members ''description'' = Some (JString s)
            \<longrightarrow> countries_description c' = TrimSpace s"
    using d b bindString_string [of members "''description''" inD] by auto
  from executed(1) c c' n' d' w show ?thesis by blast
qed

lemma updateCountry_succeeds:
  assumes "parseIDParam idParam = Some i" and "find_country db i = Some c"
    and "JOther \<notin> set (field_values members ''name'')"
    and "JOther \<notin> set (field_values members ''description'')"
  shows "resp_status (updateCountry now None db idParam (Object members)) = 200"
proof -
  obtain inN where n: "bindString (field_values members ''name'') = Some inN"
    using bindString_binds [OF assms(3)] by (elim exE)
  obtain inD where d: "bindString (field_values members ''description'') = Some inD"
    using bindString_binds [OF assms(4)] by (elim exE)
  have bi: "bindCountryInput (Object members) = Some (inN, inD)"
    by (simp add: bindCountryInput_def n d)
  show ?thesis
    unfolding updateCountry_unfold [OF assms(1) bi]
    by (rule execUpdateCountry_succeeds [OF assms(2)])
qed












lemmas place_update_simps = updatePlace_def execUpdatePlace_def update_places_def
  bindPlaceInput_def bindString_def field_values_def lower_char_def resolveVisitedAt_def
  parseIDParam_def ParseInt64_def decimal_integer_def decimal_value_def is_digit_def
  find_place_def find_country_def fetchCountry_def fetchPlaces_def sample_db_def
  TrimSpace_def space_width_end_def is_space_def COALESCE_def Let_def




text \<open>
  Claim C2, as amended.  A partial update whose body is a JSON object leaves, whatever
  its outcome, in every stored place and country each field that no key of the request
  names (keys are matched up to case) as it was, and a request answered with status 400
  changes nothing.  When the update is accepted (status 200), every field whose last
  member is a string is overwritten: with the text trimmed of white space, and for
  \<open>visited_at\<close> with the parsed date (no date for the empty string); the row's
  \<open>updated_at\<close> is set by the trigger.  A request for an existing row is accepted
  when no member that names a field has a value other than a string or null, the
  \<open>visited_at\<close> given is empty or a date, and the database does not fail.
\<close>

theorem partial_update_frame:
  "(find_place db j = Some p \<longrightarrow>
      (\<exists>p'. find_place (db_after (updatePlace now fault db idParam (Object members))) j
              = Some p'
         \<and> places_id p' = places_id p \<and> places_country_id p' = places_country_id p
         \<and> places_created_at p' = places_created_at p
         \<and> (field_state members ''name'' = None \<longrightarrow> places_name p' = places_name p)
         \<and> (field_state members ''category'' = None
              \<longrightarrow> places_category p' = places_category p)
         \<and> (field_state members ''city'' = None \<longrightarrow> places_city p' = places_city p)
         \<and> (field_state members ''description'' = None
              \<longrightarrow> places_description p' = places_description p)
         \<and> (field_state members ''visited_at'' = None
              \<longrightarrow> places_visited_at p' = places_visited_at p)))
   \<and> (resp_status (updatePlace now fault db idParam (Object members)) = 400
      \<longrightarrow> db_after (updatePlace now fault db idParam (Object members)) = db)
   \<and> (resp_status (updatePlace now fault db idParam (Object members)) = 200 \<longrightarrow>
      (\<exists>placeID p p'. parseIDParam idParam = Some placeID
         \<and> find_place db placeID = Some p
         \<and> find_place (db_after (updatePlace now fault db idParam (Object members))) placeID
             = Some p'
         \<and> (\<forall>s. field_state members ''name'' = Some (JString s)
                \<longrightarrow> places_name p' = TrimSpace s)
         \<and> (\<forall>s. field_state members ''category'' = Some (JString s)
                \<longrightarrow> places_category p' = TrimSpace s)
         \<and> (\<forall>s. field_state members ''city'' = Some (JString s)
                \<longrightarrow> places_city p' = TrimSpace s)
         \<and> (\<forall>s. field_state members ''description'' = Some (JString s)
                \<longrightarrow> places_description p' = TrimSpace s)
         \<and> (\<forall>s. field_state members ''visited_at'' = Some (JString s) \<longrightarrow>
                places_visited_at p' = (if s = [] then None else parse_date s)
                \<and> (s \<noteq> [] \<longrightarrow> (\<exists>t. parse_date s = Some t)))
         \<and> places_updated_at p' = now))
   \<and> (parseIDParam idParam = Some i \<and> find_place db i = Some p0
        \<and> JOther \<notin> set (field_values members ''name'')
        \<and> JOther \<notin> set (field_values members ''category'')
        \<and> JOther \<notin> set (field_values members ''city'')
        \<and> JOther \<notin> set (field_values members ''description'')
        \<and> JOther \<notin> set (field_values members ''visited_at'')
        \<and> (\<forall>s. field_state members ''visited_at'' = Some (JString s)
               \<longrightarrow> s = [] \<or> parse_date s \<noteq> None)
      \<longrightarrow> resp_status (updatePlace now None db idParam (Object members)) = 200)
   \<and> (find_country db j = Some c \<longrightarrow>
      (\<exists>c'. find_country (db_after (updateCountry now fault db idParam (Object members))) j
              = Some c'
         \<and> countries_id c' = countries_id c
         \<and> countries_created_at c' = countries_created_at c
         \<and> (field_state members ''name'' = None \<longrightarrow> countries_name c' = countries_name c)
         \<and> (field_state members ''description'' = None
              \<longrightarrow> countries_description c' = countries_description c)))
   \<and> (resp_status (updateCountry now fault db idParam (Object members)) = 400
      \<longrightarrow> db_after (updateCountry now fault db idParam (Object members)) = db)
   \<and> (resp_status (updateCountry now fault db idParam (Object members)) = 200 \<longrightarrow>
      (\<exists>countryID c c'. parseIDParam idParam = Some countryID
         \<and> find_country db countryID = Some c
         \<and> find_country (db_after (updateCountry now fault db idParam (Object members)))
              countryID = Some c'
         \<and> (\<forall>s. field_state members ''name'' = Some (JString s)
                \<longrightarrow> countries_name c' = TrimSpace s)
         \<and> (\<forall>s. field_state members ''description'' = Some (JString s)
                \<longrightarrow> countries_description c' = TrimSpace s)
         \<and> countries_updated_at c' = now))
   \<and> (parseIDParam idParam = Some i \<and> find_country db i = Some c0
        \<and> JOther \<notin> set (field_values members ''name'')
        \<and> JOther \<notin> set (field_values members ''description'')
      \<longrightarrow> resp_status (updateCountry now None db idParam (Object members)) = 200)"
proof (intro conjI impI)
  assume p: "find_place db j = Some p"
  from updatePlace_frame [OF p, of now fault idParam members]
  obtain p' where
    "find_place (db_after (updatePlace now fault db idParam (Object members))) j = Some p'"
    "places_id p' = places_id p" "places_country_id p' = places_country_id p"
    "places_created_at p' = places_created_at p"
    "field_state members ''name'' = None \<or> field_state members ''name'' = Some JNull
       \<longrightarrow> places_name p' = places_name p"
    "field_state members ''category'' = None \<or> field_state members ''category'' = Some JNull
       \<longrightarrow> places_category p' = places_category p"
    "field_state members ''city'' = None \<or> field_state members ''city'' = Some JNull
       \<longrightarrow> places_city p' = places_city p"
    "field_state members ''description'' = None
       \<or> field_state members ''description'' = Some JNull
       \<longrightarrow> places_description p' = places_description p"
    "field_state members ''visited_at'' = None
       \<or> field_state members ''visited_at'' = Some JNull
       \<longrightarrow> places_visited_at p' = places_visited_at p"
    by (elim exE conjE)
  then show "\<exists>p'. find_place (db_after (updatePlace now fault db idParam (Object members))) j
              = Some p'
         \<and> places_id p' = places_id p \<and> places_country_id p' = places_country_id p
         \<and> places_created_at p' = places_created_at p
         \<and> (field_state members ''name'' = None \<longrightarrow> places_name p' = places_name p)
         \<and> (field_state members ''category'' = None
              \<longrightarrow> places_category p' = places_category p)
         \<and> (field_state members ''city'' = None \<longrightarrow> places_city p' = places_city p)
         \<and> (field_state members ''description'' = None
              \<longrightarrow> places_description p' = places_description p)
         \<and> (field_state members ''visited_at'' = None
              \<longrightarrow> places_visited_at p' = places_visited_at p)"
    by (intro exI [of _ p']) simp
next
  assume "resp_status (updatePlace now fault db idParam (Object members)) = 400"
  then show "db_after (updatePlace now fault db idParam (Object members)) = db"
    by (rule updatePlace_rejected_unchanged)
next
  assume "resp_status (updatePlace now fault db idParam (Object members)) = 200"
  then show "\<exists>placeID p p'. parseIDParam idParam = Some placeID
         \<and> find_place db placeID = Some p
         \<and> find_place (db_after (updatePlace now fault db idParam (Object members))) placeID
             = Some p'
         \<and> (\<forall>s. field_state members ''name'' = Some (JString s)
                \<longrightarrow> places_name p' = TrimSpace s)
         \<and> (\<forall>s. field_state members ''category'' = Some (JString s)
                \<longrightarrow> places_category p' = TrimSpace s)
         \<and> (\<forall>s. field_state members ''city'' = Some (JString s)
                \<longrightarrow> places_city p' = TrimSpace s)
         \<and> (\<forall>s. field_state members ''description'' = Some (JString s)
                \<longrightarrow> places_description p' = TrimSpace s)
         \<and> (\<forall>s. field_state members ''visited_at'' = Some (JString s) \<longrightarrow>
                places_visited_at p' = (if s = [] then None else parse_date s)
                \<and> (s \<noteq> [] \<longrightarrow> (\<exists>t. parse_date s = Some t)))
         \<and> places_updated_at p' = now"
    by (rule updatePlace_overwrites)
next
  assume h: "parseIDParam idParam = Some i \<and> find_place db i = Some p0
        \<and> JOther \<notin> set (field_values members ''name'')
        \<and> JOther \<notin> set (field_values members ''category'')
        \<and> JOther \<notin> set (field_values members ''city'')
        \<and> JOther \<notin> set (field_values members ''description'')
        \<and> JOther \<notin> set (field_values members ''visited_at'')
        \<and> (\<forall>s. field_state members ''visited_at'' = Some (JString s)
               \<longrightarrow> s = [] \<or> parse_date s \<noteq> None)"
  from h have 1: "parseIDParam idParam = Some i" and 2: "find_place db i = Some p0"
    and 3: "JOther \<notin> set (field_values members ''name'')"
    and 4: "JOther \<notin> set (field_values members ''category'')"
    and 5: "JOther \<notin> set (field_values members ''city'')"
    and 6: "JOther \<notin> set (field_values members ''description'')"
    and 7: "JOther \<notin> set (field_values members ''visited_at'')"
    and 8: "\<forall>s. field_state members ''visited_at'' = Some (JString s)
               \<longrightarrow> s = [] \<or> parse_date s \<noteq> None"
    by simp_all
  show "resp_status (updatePlace now None db idParam (Object members)) = 200"
    by (rule updatePlace_succeeds [OF 1 2 3 4 5 6 7 8])
next
  assume c: "find_country db j = Some c"
  from updateCountry_frame [OF c, of now fault idParam members]
  obtain c' where
    "find_country (db_after (updateCountry now fault db idParam (Object members))) j = Some c'"
    "countries_id c' = countries_id c" "countries_created_at c' = countries_created_at c"
    "field_state members ''name'' = None \<or> field_state members ''name'' = Some JNull
       \<longrightarrow> countries_name c' = countries_name c"
    "field_state members ''description'' = None
       \<or> field_state members ''description'' = Some JNull
       \<longrightarrow> countries_description c' = countries_description c"
    by (elim exE conjE)
  then show "\<exists>c'. find_country (db_after (updateCountry now fault db idParam (Object members))) j
              = Some c'
         \<and> countries_id c' = countries_id c
         \<and> countries_created_at c' = countries_created_at c
         \<and> (field_state members ''name'' = None \<longrightarrow> countries_name c' = countries_name c)
         \<and> (field_state members ''description'' = None
              \<longrightarrow> countries_description c' = countries_description c)"
    by (intro exI [of _ c']) simp
next
  assume "resp_status (updateCountry now fault db idParam (Object members)) = 400"
  then show "db_after (updateCountry now fault db idParam (Object members)) = db"
    by (rule updateCountry_rejected_unchanged)
next
  assume "resp_status (updateCountry now fault db idParam (Object members)) = 200"
  then show "\<exists>countryID c c'. parseIDParam idParam = Some countryID
         \<and> find_country db countryID = Some c
         \<and> find_country (db_after (updateCountry now fault db idParam (Object members)))
              countryID = Some c'
         \<and> (\<forall>s. field_state members ''name'' = Some (JString s)
                \<longrightarrow> countries_name c' = TrimSpace s)
         \<and> (\<forall>s. field_state members ''description'' = Some (JString s)
                \<longrightarrow> countries_description c' = TrimSpace s)
         \<and> countries_updated_at c' = now"
    by (rule updateCountry_overwrites)
next
  assume h: "parseIDParam idParam = Some i \<and> find_country db i = Some c0
        \<and> JOther \<notin> set (field_values members ''name'')
        \<and> JOther \<notin> set (field_values members ''description'')"
  from h have 1: "parseIDParam idParam = Some i" and 2: "find_country db i = Some c0"
    and 3: "JOther \<notin> set (field_values members ''name'')"
    and 4: "JOther \<notin> set (field_values members ''description'')"
    by simp_all
  show "resp_status (updateCountry now None db idParam (Object members)) = 200"
    by (rule updateCountry_succeeds [OF 1 2 3 4])
qed

theorem partial_update_frame_witness:
  "parseIDParam ''7'' = Some 7
   \<and> find_place sample_db 7
     = Some \<lparr>places_id = 7, places_country_id = 1, places_name = ''Ubud'',
             places_category = ''Town'', places_city = ''Gianyar'',
             places_description = ''Rice terraces'', places_visited_at = Some (2024, 5, 1),
             places_created_at = 11, places_updated_at = 11\<rparr>
   \<and> resp_status (updatePlace 99 None sample_db ''7''
        (Object [(''Name'', JString ''  Ubud Center ''),
                 (''visited_at'', JString ''2024-06-02'')])) = 200
   \<and> places (db_after (updatePlace 99 None sample_db ''7''
        (Object [(''Name'', JString ''  Ubud Center ''),
                 (''visited_at'', JString ''2024-06-02'')])))
     = [\<lparr>places_id = 7, places_country_id = 1, places_name = ''Ubud Center'',
         places_category = ''Town'', places_city = ''Gianyar'',
         places_description = ''Rice terraces'', places_visited_at = Some (2024, 6, 2),
         places_created_at = 11, places_updated_at = 99\<rparr>]
   \<and> resp_status (updatePlace 99 None sample_db ''7''
        (Object [(''name'', JString ''Sanur''), (''city'', JOther)])) = 400
   \<and> db_after (updatePlace 99 None sample_db ''7''
        (Object [(''name'', JString ''Sanur''), (''city'', JOther)])) = sample_db
   \<and> parseIDParam ''1'' = Some 1
   \<and> find_country sample_db 1
     = Some \<lparr>countries_id = 1, countries_name = ''Indonesia'',
             countries_description = ''Islands'',
             countries_created_at = 10, countries_updated_at = 10\<rparr>
   \<and> resp_status (updateCountry 99 None sample_db ''1''
        (Object [(''description'', JString '' Archipelago '')])) = 200
   \<and> countries (db_after (updateCountry 99 None sample_db ''1''
        (Object [(''description'', JString '' Archipelago '')])))
     = [\<lparr>countries_id = 1, countries_name = ''Indonesia'',
         countries_description = ''Archipelago'',
         countries_created_at = 10, countries_updated_at = 99\<rparr>]"
proof -
  let ?pm = "[(''Name'', JString ''  Ubud Center ''), (''visited_at'', JString ''2024-06-02'')]"
  let ?bad = "[(''name'', JString ''Sanur''), (''city'', JOther)]"
  let ?cm = "[(''description'', JString '' Archipelago '')]"
  let ?p = "\<lparr>places_id = 7, places_country_id = 1, places_name = ''Ubud'',
             places_category = ''Town'', places_city = ''Gianyar'',
             places_description = ''Rice terraces'', places_visited_at = Some (2024, 5, 1),
             places_created_at = 11, places_updated_at = 11\<rparr>"
  let ?c = "\<lparr>countries_id = 1, countries_name = ''Indonesia'',
             countries_description = ''Islands'',
             countries_created_at = 10, countries_updated_at = 10\<rparr>"
  have p7: "parseIDParam ''7'' = Some 7" and p1: "parseIDParam ''1'' = Some 1"
    by (simp_all add: parseIDParam_def ParseInt64_def decimal_integer_def decimal_value_def
          is_digit_def)
  have d: "parse_date ''2024-06-02'' = Some (2024, 6, 2)"
    by (simp add: parse_date_def is_digit_def days_in_def leap_year_def)
  have f: "find_place sample_db 7 = Some ?p"
    by (simp add: find_place_def sample_db_def)
  have g: "find_country sample_db 1 = Some ?c"
    by (simp add: find_country_def sample_db_def)
  have v: "field_values ?pm ''name'' = [JString ''  Ubud Center '']"
    "field_values ?pm ''category'' = []" "field_values ?pm ''city'' = []"
    "field_values ?pm ''description'' = []"
    "field_values ?pm ''visited_at'' = [JString ''2024-06-02'']"
    "field_values ?cm ''name'' = []"
    "field_values ?cm ''description'' = [JString '' Archipelago '']"
    by (simp_all add: field_values_def lower_char_def)
  have s: "\<forall>s. field_state ?pm ''visited_at'' = Some (JString s)
               \<longrightarrow> s = [] \<or> parse_date s \<noteq> None"
    by (simp add: field_state_def v d)
  have ok: "resp_status (updatePlace 99 None sample_db ''7'' (Object ?pm)) = 200"
    using partial_update_frame [where db = sample_db and j = 7 and p = ?p and now = 99
        and fault = None and idParam = "''7''" and members = ?pm and i = 7 and p0 = ?p
        and c = ?c and c0 = ?c] p7 f s
    by (simp add: v)
  have pl: "places (db_after (updatePlace 99 None sample_db ''7'' (Object ?pm)))
     = [\<lparr>places_id = 7, places_country_id = 1, places_name = ''Ubud Center'',
         places_category = ''Town'', places_city = ''Gianyar'',
         places_description = ''Rice terraces'', places_visited_at = Some (2024, 6, 2),
         places_created_at = 11, places_updated_at = 99\<rparr>]"
    by (simp add: place_update_simps d)
  have bad: "resp_status (updatePlace 99 None sample_db ''7'' (Object ?bad)) = 400"
    by (simp add: place_update_simps)
  have same: "db_after (updatePlace 99 None sample_db ''7'' (Object ?bad)) = sample_db"
    using partial_update_frame [where db = sample_db and j = 7 and p = ?p and now = 99
        and fault = None and idParam = "''7''" and members = ?bad and i = 7 and p0 = ?p
        and c = ?c and c0 = ?c] bad
    by blast
  have cok: "resp_status (updateCountry 99 None sample_db ''1'' (Object ?cm)) = 200"
    using partial_update_frame [where db = sample_db and j = 1 and p = ?p and now = 99
        and fault = None and idParam = "''1''" and members = ?cm and i = 1 and p0 = ?p
        and c = ?c and c0 = ?c] p1 g
    by (simp add: v)
  have cl: "countries (db_after (updateCountry 99 None sample_db ''1'' (Object ?cm)))
     = [\<lparr>countries_id = 1, countries_name = ''Indonesia'',
         countries_description = ''Archipelago'',
         countries_created_at = 10, countries_updated_at = 99\<rparr>]"
    by (simp add: updateCountry_def execUpdateCountry_def update_countries_def
          bindCountryInput_def place_update_simps)
  from p7 f ok pl bad same p1 g cok cl show ?thesis by (intro conjI)
qed

text \<open>
  Claim C2 as stated fails: a field that is present with a non-null value is not
  overwritten when the request is rejected.  With the name \<open>Sanur\<close> and a
  \<open>visited_at\<close> that is not a date the answer is 400 and the stored name is still
  \<open>Ubud\<close>.
\<close>

theorem present_field_not_overwritten:
  "updatePlace 99 None sample_db ''7''
      (Object [(''name'', JString ''Sanur''), (''visited_at'', JString ''soon'')])
     = \<lparr>resp_status = 400,
        resp_body = ErrorMessage ''invalid visited_at format, expected YYYY-MM-DD'',
        db_after = sample_db\<rparr>
   \<and> map places_name (places sample_db) = [''Ubud'']"
proof -
  have d: "parse_date ''soon'' = None" by (simp add: parse_date_def)
  have "updatePlace 99 None sample_db ''7''
      (Object [(''name'', JString ''Sanur''), (''visited_at'', JString ''soon'')])
     = \<lparr>resp_status = 400,
        resp_body = ErrorMessage ''invalid visited_at format, expected YYYY-MM-DD'',
        db_after = sample_db\<rparr>"
    by (simp add: updatePlace_def bindPlaceInput_def bindString_def field_values_def
          lower_char_def resolveVisitedAt_def parseIDParam_def ParseInt64_def
          decimal_integer_def decimal_value_def is_digit_def d)
  moreover have "map places_name (places sample_db) = [''Ubud'']"
    by (simp add: sample_db_def)
  ultimately show ?thesis by (intro conjI)
qed





end
